theory Spec2Isabelle
  imports Main "HOL-Library.Sublist"
begin

section \<open>Errors, durations and reconcile results\<close>

text \<open>
  A Go \<open>error\<close> value is modelled by the text its \<open>Error()\<close> method returns; a
  possibly-nil error is an \<open>error option\<close>. The predicates that classify errors
  (\<open>eks.IsErrorAlreadyExists\<close>, \<open>kerrors.IsNotFound\<close>, ...) live in packages that are
  not among the sources, so they are fields of the records of collaborators below
  and every theorem holds for any choice of them.
\<close>

datatype error = errors_New (Error: string)

definition errors_Wrap :: "error option \<Rightarrow> string \<Rightarrow> error option" where
  \<comment> \<open>\<open>errors.Wrap\<close> returns nil for a nil error, else prefixes the message.\<close>
  "errors_Wrap err message =
     (case err of None \<Rightarrow> None
      | Some e \<Rightarrow> Some (errors_New (message @ '': '' @ Error e)))"

definition strings_Join :: "string list \<Rightarrow> string \<Rightarrow> string" where
  "strings_Join elems sep = (case elems of [] \<Rightarrow> [] | e # es \<Rightarrow> e @ concat (map (\<lambda>x. sep @ x) es))"

text \<open>\<open>time.Duration\<close> counts nanoseconds.\<close>

type_synonym Duration = int

definition Second :: Duration where
  "Second = 1000000000"

definition aShortWait :: Duration where
  "aShortWait = 30 * Second"

definition aLongWait :: Duration where
  "aLongWait = 60 * Second"

definition errUpdateManagedStatus :: string where
  "errUpdateManagedStatus = ''cannot update managed resource status''"

definition controllerName :: string where
  "controllerName = ''eks.compute.aws.crossplane.io''"

definition finalizer :: string where
  "finalizer = ''finalizer.'' @ controllerName"

definition clusterNamePrefix :: string where
  "clusterNamePrefix = ''eks-''"

record Result =
  Requeue :: bool
  RequeueAfter :: Duration

definition Result_zero :: Result where
  \<comment> \<open>\<open>reconcile.Result{}\<close>\<close>
  "Result_zero = \<lparr>Requeue = False, RequeueAfter = 0\<rparr>"

section \<open>Conditions\<close>

text \<open>
  Modelled from the spec: the condition set (sections 3 and 4.4 of the
  specification) is the one of the crossplane-runtime library, which is not among
  the sources. At most one condition of a type is kept: \<open>SetConditions\<close> replaces the
  condition of the same type or appends, \<open>GetCondition\<close> returns the condition of a
  type, of status Unknown when there is none. The constructors carry the types,
  statuses and reasons that the controller tests read back (Ready is False with reason
  Creating after a creation, False with reason Deleting after a deletion, True with
  reason Available once observed). A condition's transition time is left out: two
  conditions that differ only in it are equal for \<open>SetConditions\<close>.
\<close>

datatype ConditionType = TypeReady | TypeSynced | TypeReferencesResolved

datatype ConditionStatus = ConditionTrue | ConditionFalse | ConditionUnknown

datatype ConditionReason =
    ReasonNone
  | ReasonAvailable
  | ReasonCreating
  | ReasonDeleting
  | ReasonReconcileSuccess
  | ReasonReconcileError
  | ReasonReferenceResolveSuccess
  | ReasonResolveReferencesBlocked

record Condition =
  Condition_Type :: ConditionType
  Condition_Status :: ConditionStatus
  Condition_Reason :: ConditionReason
  Condition_Message :: string

definition Creating :: Condition where
  "Creating = \<lparr>Condition_Type = TypeReady, Condition_Status = ConditionFalse,
     Condition_Reason = ReasonCreating, Condition_Message = []\<rparr>"

definition Deleting :: Condition where
  "Deleting = \<lparr>Condition_Type = TypeReady, Condition_Status = ConditionFalse,
     Condition_Reason = ReasonDeleting, Condition_Message = []\<rparr>"

definition Available :: Condition where
  "Available = \<lparr>Condition_Type = TypeReady, Condition_Status = ConditionTrue,
     Condition_Reason = ReasonAvailable, Condition_Message = []\<rparr>"

definition ReconcileSuccess :: Condition where
  "ReconcileSuccess = \<lparr>Condition_Type = TypeSynced, Condition_Status = ConditionTrue,
     Condition_Reason = ReasonReconcileSuccess, Condition_Message = []\<rparr>"

definition ReconcileError :: "error \<Rightarrow> Condition" where
  "ReconcileError err = \<lparr>Condition_Type = TypeSynced, Condition_Status = ConditionFalse,
     Condition_Reason = ReasonReconcileError, Condition_Message = Error err\<rparr>"

definition ReferenceResolutionSuccess :: Condition where
  "ReferenceResolutionSuccess = \<lparr>Condition_Type = TypeReferencesResolved,
     Condition_Status = ConditionTrue, Condition_Reason = ReasonReferenceResolveSuccess,
     Condition_Message = []\<rparr>"

definition ReferenceResolutionBlocked :: "error \<Rightarrow> Condition" where
  "ReferenceResolutionBlocked err = \<lparr>Condition_Type = TypeReferencesResolved,
     Condition_Status = ConditionFalse, Condition_Reason = ReasonResolveReferencesBlocked,
     Condition_Message = Error err\<rparr>"

definition SetCondition :: "Condition list \<Rightarrow> Condition \<Rightarrow> Condition list" where
  \<comment> \<open>one round of the loop of \<open>ConditionedStatus.SetConditions\<close>: replace the
      conditions of the same type, append when there is none\<close>
  "SetCondition cs new =
     (if list_ex (\<lambda>existing. Condition_Type existing = Condition_Type new) cs
      then map (\<lambda>existing. if Condition_Type existing = Condition_Type new then new else existing) cs
      else cs @ [new])"

definition ConditionedStatus_SetConditions :: "Condition list \<Rightarrow> Condition list \<Rightarrow> Condition list" where
  "ConditionedStatus_SetConditions cs c = foldl SetCondition cs c"

definition ConditionedStatus_GetCondition :: "Condition list \<Rightarrow> ConditionType \<Rightarrow> Condition" where
  \<comment> \<open>the first condition of the type, else one of status Unknown\<close>
  "ConditionedStatus_GetCondition cs ct =
     (case find (\<lambda>c. Condition_Type c = ct) cs of
        Some c \<Rightarrow> c
      | None \<Rightarrow> \<lparr>Condition_Type = ct, Condition_Status = ConditionUnknown,
          Condition_Reason = ReasonNone, Condition_Message = []\<rparr>)"

definition IsConditionTrue :: "Condition \<Rightarrow> bool" where
  "IsConditionTrue c = (Condition_Status c = ConditionTrue)"

section \<open>The EKSCluster resource (apis/compute/v1alpha2/types.go)\<close>

text \<open>
  A referencer is identified by the name of the object it points to; an optional
  (pointer) referencer is an option. The fields of the embedded structs are inlined,
  as the Go embedding does. Fields that only the node-pool template and the auth
  map read (key name, image, sizes, MapRoles, MapUsers) are not part of the model.
\<close>

type_synonym Referencer = string

record WorkerNodesSpec =
  NodeInstanceType :: string
  ClusterControlPlaneSecurityGroup :: string
  ClusterControlPlaneSecurityGroupRef :: "Referencer option"

record EKSClusterSpec =
  ProviderReference :: string
  ReclaimPolicy :: string
  Region :: string
  RoleARN :: string
  RoleARNRef :: "Referencer option"
  VPCID :: string
  VPCIDRef :: "Referencer option"
  SubnetIDs :: "string list"
  SubnetIDRefs :: "Referencer list"
  SecurityGroupIDs :: "string list"
  SecurityGroupIDRefs :: "Referencer list"
  Spec_ClusterVersion :: string
  WorkerNodes :: WorkerNodesSpec

definition ReclaimDelete :: string where
  "ReclaimDelete = ''Delete''"

definition ClusterStatusCreating :: string where
  "ClusterStatusCreating = ''CREATING''"

definition ClusterStatusActive :: string where
  "ClusterStatusActive = ''ACTIVE''"

datatype BindingPhase = BindingPhaseUnset | BindingPhaseUnbindable | BindingPhaseUnbound
  | BindingPhaseBound | BindingPhaseReleased

record EKSClusterStatus =
  Conditions :: "Condition list"
  Phase :: BindingPhase
  State :: string
  ClusterName :: string
  ClusterVersion :: string
  Endpoint :: string
  CloudFormationStackID :: string

record EKSCluster =
  UID :: string
  DeletionTimestamp :: "int option"
  Finalizers :: "string list"
  Spec :: EKSClusterSpec
  Status :: EKSClusterStatus

definition EKSCluster_zero :: EKSCluster where
  \<comment> \<open>\<open>&EKSCluster{}\<close>\<close>
  "EKSCluster_zero = \<lparr>UID = [], DeletionTimestamp = None, Finalizers = [],
     Spec = \<lparr>ProviderReference = [], ReclaimPolicy = [], Region = [], RoleARN = [],
       RoleARNRef = None, VPCID = [], VPCIDRef = None, SubnetIDs = [], SubnetIDRefs = [],
       SecurityGroupIDs = [], SecurityGroupIDRefs = [], Spec_ClusterVersion = [],
       WorkerNodes = \<lparr>NodeInstanceType = [], ClusterControlPlaneSecurityGroup = [],
         ClusterControlPlaneSecurityGroupRef = None\<rparr>\<rparr>,
     Status = \<lparr>Conditions = [], Phase = BindingPhaseUnset, State = [], ClusterName = [],
       ClusterVersion = [], Endpoint = [], CloudFormationStackID = []\<rparr>\<rparr>"

definition SetConditions :: "EKSCluster \<Rightarrow> Condition list \<Rightarrow> EKSCluster" where
  \<comment> \<open>\<open>instance.Status.SetConditions(c...)\<close>\<close>
  "SetConditions instance c =
     instance\<lparr>Status := (Status instance)\<lparr>Conditions :=
       ConditionedStatus_SetConditions (Conditions (Status instance)) c\<rparr>\<rparr>"

definition GetCondition :: "EKSCluster \<Rightarrow> ConditionType \<Rightarrow> Condition" where
  "GetCondition instance ct = ConditionedStatus_GetCondition (Conditions (Status instance)) ct"

text \<open>
  Modelled from the spec: \<open>meta.AddFinalizer\<close>, \<open>meta.RemoveFinalizer\<close> and
  \<open>resource.SetBindable\<close> belong to crossplane-runtime as well. A finalizer is added
  unless it is there, removed wherever it occurs; a resource that is not bound
  becomes unbound, that is, ready to be bound.
\<close>

definition AddFinalizer :: "EKSCluster \<Rightarrow> string \<Rightarrow> EKSCluster" where
  "AddFinalizer o' f =
     (if f \<in> set (Finalizers o') then o' else o'\<lparr>Finalizers := Finalizers o' @ [f]\<rparr>)"

definition RemoveFinalizer :: "EKSCluster \<Rightarrow> string \<Rightarrow> EKSCluster" where
  "RemoveFinalizer o' f = o'\<lparr>Finalizers := filter (\<lambda>e. e \<noteq> f) (Finalizers o')\<rparr>"

definition SetBindable :: "EKSCluster \<Rightarrow> EKSCluster" where
  "SetBindable b =
     (if Phase (Status b) = BindingPhaseBound then b
      else b\<lparr>Status := (Status b)\<lparr>Phase := BindingPhaseUnbound\<rparr>\<rparr>)"

section \<open>Collaborators\<close>

text \<open>
  The EKS client (\<open>eks.Client\<close>) is an interface of a package that is not among the
  sources. Each method is a function from its arguments to its response; a Go result
  \<open>(*T, error)\<close> is a pair of options, so that a nil pointer next to an error, or next
  to no error, is a possible response. The record also carries the error predicates
  of the client packages.
\<close>

record Cluster =
  Cluster_Status :: string
  Cluster_Endpoint :: string
  Cluster_CA :: string
  Cluster_Version :: string

record ClusterWorkers =
  WorkerStackID :: string
  WorkersStatus :: string
  WorkerReason :: string
  WorkerARN :: string

record eks_Client =
  Client_Create :: "string \<Rightarrow> EKSClusterSpec \<Rightarrow> Cluster option \<times> error option"
  Client_Get :: "string \<Rightarrow> Cluster option \<times> error option"
  Client_Delete :: "string \<Rightarrow> error option"
  Client_CreateWorkerNodes :: "string \<Rightarrow> string \<Rightarrow> EKSClusterSpec \<Rightarrow> ClusterWorkers option \<times> error option"
  Client_GetWorkerNodes :: "string \<Rightarrow> ClusterWorkers option \<times> error option"
  Client_DeleteWorkerNodes :: "string \<Rightarrow> error option"
  eks_IsErrorAlreadyExists :: "error \<Rightarrow> bool"
  eks_IsErrorBadRequest :: "error \<Rightarrow> bool"
  eks_IsErrorNotFound :: "error \<Rightarrow> bool"
  cloudformationclient_IsErrorNotFound :: "error \<Rightarrow> bool"

text \<open>
  The \<open>Reconciler\<close>: the Kubernetes client (\<open>Get\<close> of the requested object, \<open>Update\<close>),
  the reference resolver, and the function fields \<open>connect\<close>, \<open>awsauth\<close> and \<open>secret\<close>,
  whose bodies only call packages outside the sources. \<open>ResolveReferences\<close> may
  change the resource it is given, so it returns the resource next to its error.
  The fields \<open>create\<close>, \<open>sync\<close> and \<open>delete\<close> are the methods \<open>_create\<close>, \<open>_sync\<close> and
  \<open>_delete\<close>, as \<open>SetupWithManager\<close> sets them; they are the functions
  \<open>Reconciler_create\<close>, \<open>Reconciler_sync\<close> and \<open>Reconciler_delete\<close> below.
\<close>

record Reconciler =
  Get :: "error + EKSCluster"
  Update :: "EKSCluster \<Rightarrow> error option"
  ResolveReferences :: "EKSCluster \<Rightarrow> error option \<times> EKSCluster"
  connect :: "EKSCluster \<Rightarrow> error + eks_Client"
  awsauth :: "Cluster \<Rightarrow> EKSCluster \<Rightarrow> eks_Client \<Rightarrow> string \<Rightarrow> error option"
  secret :: "Cluster \<Rightarrow> EKSCluster \<Rightarrow> eks_Client \<Rightarrow> error option"
  IsNotFound :: "error \<Rightarrow> bool"
  IsReferencesAccessError :: "error \<Rightarrow> bool"

definition IgnoreNotFound :: "Reconciler \<Rightarrow> error \<Rightarrow> error option" where
  \<comment> \<open>\<open>resource.IgnoreNotFound\<close>: nil for a not-found error, else the error\<close>
  "IgnoreNotFound r err = (if IsNotFound r err then None else Some err)"

text \<open>
  A pass is observed through the calls it makes to its collaborators, in order, the
  resource as the pass leaves it, and what it returns: a result and an error, or a
  panic where the Go code dereferences a nil pointer.
\<close>

datatype call =
    Call_Get
  | Call_connect
  | Call_ResolveReferences
  | Call_Update EKSCluster
  | Call_Create string EKSClusterSpec
  | Call_ClientGet string
  | Call_Delete string
  | Call_CreateWorkerNodes string string EKSClusterSpec
  | Call_GetWorkerNodes string
  | Call_DeleteWorkerNodes string
  | Call_awsauth
  | Call_secret

datatype ret = Return Result "error option" | Panic

record outcome =
  ret :: ret
  inst :: EKSCluster
  calls :: "call list"

definition after :: "call list \<Rightarrow> outcome \<Rightarrow> outcome" where
  \<comment> \<open>the outcome of a continuation, after the calls already made\<close>
  "after cs out = out\<lparr>calls := cs @ calls out\<rparr>"

section \<open>The controller (pkg/controller/compute/eks.go)\<close>

definition completedCFState :: "string \<Rightarrow> bool" where
  "completedCFState s = (s \<in> set [''CREATE_COMPLETE'', ''UPDATE_COMPLETE''])"

definition failedCFState :: "string \<Rightarrow> bool" where
  "failedCFState s = (s \<in> set [''CREATE_FAILED'', ''ROLLBACK_COMPLETE'', ''ROLLBACK_FAILED'',
     ''DELETE_COMPLETE'', ''DELETE_FAILED''])"

definition fail :: "Reconciler \<Rightarrow> EKSCluster \<Rightarrow> error \<Rightarrow> outcome" where
  "fail r instance err =
     (let instance = SetConditions instance [ReconcileError err]
      in \<lparr>ret = Return \<lparr>Requeue = False, RequeueAfter = aShortWait\<rparr> (Update r instance),
          inst = instance, calls = [Call_Update instance]\<rparr>)"

definition create_rest :: "Reconciler \<Rightarrow> EKSCluster \<Rightarrow> string \<Rightarrow> Cluster option \<Rightarrow> outcome" where
  \<comment> \<open>\<open>_create\<close> from the read of \<open>createdCluster.Version\<close> on\<close>
  "create_rest r instance clusterName createdCluster =
     (case createdCluster of
        None \<Rightarrow> \<lparr>ret = Panic, inst = instance, calls = []\<rparr>
      | Some c \<Rightarrow>
          (let instance = instance\<lparr>Status := (Status instance)\<lparr>ClusterVersion := Cluster_Version c\<rparr>\<rparr>;
               instance = instance\<lparr>Status := (Status instance)\<lparr>State := ClusterStatusCreating\<rparr>\<rparr>;
               instance = instance\<lparr>Status := (Status instance)\<lparr>ClusterName := clusterName\<rparr>\<rparr>;
               instance = SetConditions instance [ReconcileSuccess]
           in \<lparr>ret = Return \<lparr>Requeue = False, RequeueAfter = aShortWait\<rparr> (Update r instance),
               inst = instance, calls = [Call_Update instance]\<rparr>))"

definition Reconciler_create :: "Reconciler \<Rightarrow> EKSCluster \<Rightarrow> eks_Client \<Rightarrow> outcome" where
  "Reconciler_create r instance client =
     (let instance = SetConditions instance [Creating];
          clusterName = clusterNamePrefix @ UID instance;
          (createdCluster, err) = Client_Create client clusterName (Spec instance);
          made = [Call_Create clusterName (Spec instance)]
      in case err of
           None \<Rightarrow> after made (create_rest r instance clusterName createdCluster)
         | Some e \<Rightarrow>
             if \<not> eks_IsErrorAlreadyExists client e then
               (if eks_IsErrorBadRequest client e then
                  (let instance = SetConditions instance [ReconcileError e]
                   in \<lparr>ret = Return Result_zero (Update r instance), inst = instance,
                       calls = made @ [Call_Update instance]\<rparr>)
                else after made (fail r instance e))
             else after made (create_rest r instance clusterName createdCluster))"

definition strconv_Quote :: "string \<Rightarrow> string" where
  \<comment> \<open>the verb \<open>%q\<close> on a text without characters to escape\<close>
  "strconv_Quote s = [CHR 0x22] @ s @ [CHR 0x22]"

definition sync_workers :: "Reconciler \<Rightarrow> EKSCluster \<Rightarrow> eks_Client \<Rightarrow> Cluster \<Rightarrow> outcome" where
  \<comment> \<open>\<open>_sync\<close> from the call of \<open>GetWorkerNodes\<close> on\<close>
  "sync_workers r instance client cluster =
     (let (clusterWorker, err) = Client_GetWorkerNodes client (CloudFormationStackID (Status instance));
          made = [Call_GetWorkerNodes (CloudFormationStackID (Status instance))]
      in case err of
           Some e \<Rightarrow> after made (fail r instance e)
         | None \<Rightarrow>
            (case clusterWorker of
               None \<Rightarrow> \<lparr>ret = Panic, inst = instance, calls = made\<rparr>
             | Some w \<Rightarrow>
                 if failedCFState (WorkersStatus w) then
                   after made (fail r instance (errors_New (''clusterworker stack failed with status ''
                     @ strconv_Quote (WorkersStatus w) @ '' and reason '' @ strconv_Quote (WorkerReason w))))
                 else if \<not> completedCFState (WorkersStatus w) then
                   (let instance = SetConditions instance [ReconcileSuccess]
                    in \<lparr>ret = Return \<lparr>Requeue = False, RequeueAfter = aShortWait\<rparr> (Update r instance),
                        inst = instance, calls = made @ [Call_Update instance]\<rparr>)
                 else
                   (case awsauth r cluster instance client (WorkerARN w) of
                      Some e \<Rightarrow> after (made @ [Call_awsauth])
                        (fail r instance (errors_New (''failed to set auth map on eks'' @ '': '' @ Error e)))
                    | None \<Rightarrow>
                       (case secret r cluster instance client of
                          Some e \<Rightarrow> after (made @ [Call_awsauth, Call_secret]) (fail r instance e)
                        | None \<Rightarrow>
                           (let instance = instance\<lparr>Status := (Status instance)\<lparr>Endpoint := Cluster_Endpoint cluster\<rparr>\<rparr>;
                                instance = instance\<lparr>Status := (Status instance)\<lparr>State := ClusterStatusActive\<rparr>\<rparr>;
                                instance = SetConditions instance [Available, ReconcileSuccess];
                                instance = SetBindable instance
                            in \<lparr>ret = Return \<lparr>Requeue = False, RequeueAfter = aLongWait\<rparr> (Update r instance),
                                inst = instance,
                                calls = made @ [Call_awsauth, Call_secret, Call_Update instance]\<rparr>)))))"

definition Reconciler_sync :: "Reconciler \<Rightarrow> EKSCluster \<Rightarrow> eks_Client \<Rightarrow> outcome" where
  "Reconciler_sync r instance client =
     (let (cluster, err) = Client_Get client (ClusterName (Status instance));
          made = [Call_ClientGet (ClusterName (Status instance))]
      in case err of
           Some e \<Rightarrow> after made (fail r instance e)
         | None \<Rightarrow>
            (case cluster of
               None \<Rightarrow> \<lparr>ret = Panic, inst = instance, calls = made\<rparr>
             | Some cluster \<Rightarrow>
                 if Cluster_Status cluster \<noteq> ClusterStatusActive then
                   (let instance = SetConditions instance [ReconcileSuccess]
                    in \<lparr>ret = Return \<lparr>Requeue = False, RequeueAfter = aShortWait\<rparr> None,
                        inst = instance, calls = made\<rparr>)
                 else if CloudFormationStackID (Status instance) = [] then
                   (let (clusterWorkers, err) = Client_CreateWorkerNodes client (ClusterName (Status instance))
                          (ClusterVersion (Status instance)) (Spec instance);
                        made = made @ [Call_CreateWorkerNodes (ClusterName (Status instance))
                          (ClusterVersion (Status instance)) (Spec instance)]
                    in case err of
                         Some e \<Rightarrow> after made (fail r instance e)
                       | None \<Rightarrow>
                          (case clusterWorkers of
                             None \<Rightarrow> \<lparr>ret = Panic, inst = instance, calls = made\<rparr>
                           | Some w \<Rightarrow>
                              (let instance = instance\<lparr>Status := (Status instance)\<lparr>CloudFormationStackID := WorkerStackID w\<rparr>\<rparr>;
                                   instance = SetConditions instance [ReconcileSuccess]
                               in \<lparr>ret = Return \<lparr>Requeue = False, RequeueAfter = aShortWait\<rparr> (Update r instance),
                                   inst = instance, calls = made @ [Call_Update instance]\<rparr>)))
                 else after made (sync_workers r instance client cluster)))"

definition masterDeleteError :: "eks_Client \<Rightarrow> error option \<Rightarrow> string list" where
  \<comment> \<open>what the response of \<open>client.Delete\<close> adds to \<open>deleteErrors\<close>\<close>
  "masterDeleteError client resp =
     (case resp of
        Some err \<Rightarrow> if \<not> eks_IsErrorNotFound client err
                    then [''Master Delete Error: '' @ Error err] else []
      | None \<Rightarrow> [])"

definition workerDeleteError :: "eks_Client \<Rightarrow> error option \<Rightarrow> string list" where
  \<comment> \<open>what the response of \<open>client.DeleteWorkerNodes\<close> adds to \<open>deleteErrors\<close>\<close>
  "workerDeleteError client resp =
     (case resp of
        Some err \<Rightarrow> if \<not> cloudformationclient_IsErrorNotFound client err
                    then [''Worker Delete Error: '' @ Error err] else []
      | None \<Rightarrow> [])"

definition delete_finish :: "Reconciler \<Rightarrow> EKSCluster \<Rightarrow> outcome" where
  \<comment> \<open>\<open>_delete\<close> from the removal of the finalizer on\<close>
  "delete_finish r instance =
     (let instance = RemoveFinalizer instance finalizer;
          instance = SetConditions instance [ReconcileSuccess]
      in \<lparr>ret = Return \<lparr>Requeue = False, RequeueAfter = 0\<rparr> (Update r instance),
          inst = instance, calls = [Call_Update instance]\<rparr>)"

definition Reconciler_delete :: "Reconciler \<Rightarrow> EKSCluster \<Rightarrow> eks_Client \<Rightarrow> outcome" where
  "Reconciler_delete r instance client =
     (let instance = SetConditions instance [Deleting]
      in if ReclaimPolicy (Spec instance) = ReclaimDelete then
           (let deleteErrors = masterDeleteError client (Client_Delete client (ClusterName (Status instance)));
                made = [Call_Delete (ClusterName (Status instance))];
                (deleteErrors, made) =
                   (if CloudFormationStackID (Status instance) \<noteq> [] then
                      (deleteErrors @ workerDeleteError client
                         (Client_DeleteWorkerNodes client (CloudFormationStackID (Status instance))),
                       made @ [Call_DeleteWorkerNodes (CloudFormationStackID (Status instance))])
                    else (deleteErrors, made))
            in if length deleteErrors > 0 then
                 after made (fail r instance (errors_New (strings_Join deleteErrors '', '')))
               else after made (delete_finish r instance))
         else delete_finish r instance)"

definition Reconcile_provision :: "Reconciler \<Rightarrow> EKSCluster \<Rightarrow> eks_Client \<Rightarrow> outcome" where
  \<comment> \<open>\<open>Reconcile\<close> from \<open>meta.AddFinalizer\<close> on\<close>
  "Reconcile_provision r instance eksClient =
     (let instance = AddFinalizer instance finalizer
      in if DeletionTimestamp instance \<noteq> None then Reconciler_delete r instance eksClient
         else if ClusterName (Status instance) = [] then Reconciler_create r instance eksClient
         else Reconciler_sync r instance eksClient)"

definition Reconcile :: "Reconciler \<Rightarrow> outcome" where
  "Reconcile r =
     (case Get r of
        Inl err \<Rightarrow> \<lparr>ret = Return Result_zero (IgnoreNotFound r err), inst = EKSCluster_zero,
                    calls = [Call_Get]\<rparr>
      | Inr instance \<Rightarrow>
         (case connect r instance of
            Inl err \<Rightarrow> after [Call_Get, Call_connect] (fail r instance err)
          | Inr eksClient \<Rightarrow>
             if \<not> IsConditionTrue (GetCondition instance TypeReferencesResolved) then
               (let (err, instance) = ResolveReferences r instance;
                    made = [Call_Get, Call_connect, Call_ResolveReferences]
                in case err of
                     Some e \<Rightarrow>
                       (let condition = (if IsReferencesAccessError r e
                                         then ReferenceResolutionBlocked e else ReconcileError e);
                            instance = SetConditions instance [condition]
                        in \<lparr>ret = Return \<lparr>Requeue = False, RequeueAfter = aLongWait\<rparr>
                                   (errors_Wrap (Update r instance) errUpdateManagedStatus),
                            inst = instance, calls = made @ [Call_Update instance]\<rparr>)
                   | None \<Rightarrow>
                       after made (Reconcile_provision r
                         (SetConditions instance [ReferenceResolutionSuccess]) eksClient))
             else after [Call_Get, Call_connect] (Reconcile_provision r instance eksClient)))"

section \<open>Assigning resolved references (apis/compute/v1alpha2/types.go)\<close>

text \<open>
  \<open>Assign\<close> receives any resource that can reference others and rejects what is not
  an EKSCluster. The single-valued referencers overwrite their field; the referencers
  of subnets and security groups append to theirs.
\<close>

datatype CanReference = EKSCluster_res EKSCluster | Other_res

definition errResourceIsNotEKSCluster :: string where
  "errResourceIsNotEKSCluster = ''The managed resource is not an EKSCluster''"

definition VPCIDReferencerForEKSCluster_Assign :: "CanReference \<Rightarrow> string \<Rightarrow> CanReference \<times> error option" where
  "VPCIDReferencerForEKSCluster_Assign res val =
     (case res of
        Other_res \<Rightarrow> (res, Some (errors_New errResourceIsNotEKSCluster))
      | EKSCluster_res eks \<Rightarrow> (EKSCluster_res (eks\<lparr>Spec := (Spec eks)\<lparr>VPCID := val\<rparr>\<rparr>), None))"

definition IAMRoleARNReferencerForEKSCluster_Assign :: "CanReference \<Rightarrow> string \<Rightarrow> CanReference \<times> error option" where
  "IAMRoleARNReferencerForEKSCluster_Assign res val =
     (case res of
        Other_res \<Rightarrow> (res, Some (errors_New errResourceIsNotEKSCluster))
      | EKSCluster_res eks \<Rightarrow> (EKSCluster_res (eks\<lparr>Spec := (Spec eks)\<lparr>RoleARN := val\<rparr>\<rparr>), None))"

definition SubnetIDReferencerForEKSCluster_Assign :: "CanReference \<Rightarrow> string \<Rightarrow> CanReference \<times> error option" where
  "SubnetIDReferencerForEKSCluster_Assign res val =
     (case res of
        Other_res \<Rightarrow> (res, Some (errors_New errResourceIsNotEKSCluster))
      | EKSCluster_res eks \<Rightarrow>
          (EKSCluster_res (eks\<lparr>Spec := (Spec eks)\<lparr>SubnetIDs := SubnetIDs (Spec eks) @ [val]\<rparr>\<rparr>), None))"

definition SecurityGroupIDReferencerForEKSCluster_Assign :: "CanReference \<Rightarrow> string \<Rightarrow> CanReference \<times> error option" where
  "SecurityGroupIDReferencerForEKSCluster_Assign res val =
     (case res of
        Other_res \<Rightarrow> (res, Some (errors_New errResourceIsNotEKSCluster))
      | EKSCluster_res eks \<Rightarrow>
          (EKSCluster_res (eks\<lparr>Spec := (Spec eks)\<lparr>SecurityGroupIDs := SecurityGroupIDs (Spec eks) @ [val]\<rparr>\<rparr>), None))"

definition SecurityGroupIDReferencerForEKSWorkerNodes_Assign :: "CanReference \<Rightarrow> string \<Rightarrow> CanReference \<times> error option" where
  "SecurityGroupIDReferencerForEKSWorkerNodes_Assign res val =
     (case res of
        Other_res \<Rightarrow> (res, Some (errors_New errResourceIsNotEKSCluster))
      | EKSCluster_res eks \<Rightarrow>
          (EKSCluster_res (eks\<lparr>Spec := (Spec eks)\<lparr>WorkerNodes :=
             (WorkerNodes (Spec eks))\<lparr>ClusterControlPlaneSecurityGroup := val\<rparr>\<rparr>\<rparr>), None))"

definition assignSubnetIDs :: "string list \<Rightarrow> EKSCluster \<Rightarrow> error option \<times> EKSCluster" where
  \<comment> \<open>a resolver whose subnet references are all ready: it assigns the built IDs in turn\<close>
  "assignSubnetIDs vals instance =
     (case foldl (\<lambda>res val. fst (SubnetIDReferencerForEKSCluster_Assign res val))
             (EKSCluster_res instance) vals of
        EKSCluster_res eks \<Rightarrow> (None, eks)
      | Other_res \<Rightarrow> (Some (errors_New errResourceIsNotEKSCluster), instance))"

section \<open>Successive passes over one resource\<close>

text \<open>
  Between passes the resource lives in the API server: a pass reads it with \<open>Get\<close>,
  and a successful \<open>Update\<close> replaces it with the resource the pass hands over.
  \<open>passes\<close> runs one pass per reconciler of the list, each with its own responses of
  the collaborators; a pass whose \<open>Get\<close> fails stays failed, any other reads the
  stored resource.
\<close>

definition stored_after :: "Reconciler \<Rightarrow> EKSCluster \<Rightarrow> call list \<Rightarrow> EKSCluster" where
  "stored_after r stored cs =
     foldl (\<lambda>s c. case c of Call_Update j \<Rightarrow> if Update r j = None then j else s | _ \<Rightarrow> s) stored cs"

definition reading :: "Reconciler \<Rightarrow> EKSCluster \<Rightarrow> Reconciler" where
  "reading r stored = r\<lparr>Get := (case Get r of Inl err \<Rightarrow> Inl err | Inr _ \<Rightarrow> Inr stored)\<rparr>"

fun passes :: "Reconciler list \<Rightarrow> EKSCluster \<Rightarrow> EKSCluster \<times> call list" where
  "passes [] stored = (stored, [])"
| "passes (r # rs) stored =
     (let out = Reconcile (reading r stored);
          (final, cs) = passes rs (stored_after r stored (calls out))
      in (final, calls out @ cs))"

definition deletionFailed :: "(error \<Rightarrow> bool) \<Rightarrow> error option \<Rightarrow> bool" where
  \<comment> \<open>a deletion call failed with an error that is not a not-found error\<close>
  "deletionFailed notFound resp = (case resp of None \<Rightarrow> False | Some err \<Rightarrow> \<not> notFound err)"

section \<open>The IAMRolePolicyAttachment controller\<close>

text \<open>
  The resource, with the fields the controller's tests set and read.
\<close>

record IAMRolePolicyAttachment =
  RoleName :: string
  PolicyARN :: string
  AttachedPolicyARN :: string
  IAM_Conditions :: "Condition list"

datatype Managed = Managed_IAMRolePolicyAttachment IAMRolePolicyAttachment | Managed_unexpected

text \<open>
  The IAM client: attaching and detaching take the role name and the policy ARN;
  listing takes the role name and answers the ARNs of the policies attached to it,
  or an error.
\<close>

record RolePolicyAttachmentClient =
  AttachRolePolicyRequest :: "string \<Rightarrow> string \<Rightarrow> error option"
  DetachRolePolicyRequest :: "string \<Rightarrow> string \<Rightarrow> error option"
  ListAttachedRolePoliciesRequest :: "string \<Rightarrow> error + string list"

datatype iam_call = Call_AttachRolePolicy string string | Call_DetachRolePolicy string string
  | Call_ListAttachedRolePolicies string

datatype update_error = UnexpectedObject | AttachFailed error | DetachFailed error

text \<open>
  Modelled from the spec: \<open>external.Update\<close> of
  pkg/controller/identity/iamrolepolicyattachment/controller.go is not among the
  sources. The definition follows the scenario of the specification (the policy of
  the spec is attached, the policy recorded in the status is detached, the conditions
  are left as they are) and the table of \<open>Test_Update\<close>: an unexpected resource is an
  error; a status without attached policy, or with the policy of the spec, makes no
  request; a failed attach returns before the detach; a failed detach is an error.
  The requests carry the role name and the policy ARN.
\<close>

definition external_Update :: "RolePolicyAttachmentClient \<Rightarrow> Managed \<Rightarrow> update_error option \<times> Managed \<times> iam_call list" where
  \<comment> \<open>Modelled from the spec: \<open>external.Update\<close> of the IAMRolePolicyAttachment controller\<close>
  "external_Update client mgd =
     (case mgd of
        Managed_unexpected \<Rightarrow> (Some UnexpectedObject, mgd, [])
      | Managed_IAMRolePolicyAttachment cr \<Rightarrow>
          if AttachedPolicyARN cr = [] then (None, mgd, [])
          else if AttachedPolicyARN cr = PolicyARN cr then (None, mgd, [])
          else
            (case AttachRolePolicyRequest client (RoleName cr) (PolicyARN cr) of
               Some err \<Rightarrow> (Some (AttachFailed err), mgd, [Call_AttachRolePolicy (RoleName cr) (PolicyARN cr)])
             | None \<Rightarrow>
                 (map_option DetachFailed (DetachRolePolicyRequest client (RoleName cr) (AttachedPolicyARN cr)),
                  mgd,
                  [Call_AttachRolePolicy (RoleName cr) (PolicyARN cr),
                   Call_DetachRolePolicy (RoleName cr) (AttachedPolicyARN cr)])))"





section \<open>Sample collaborators and resources\<close>

definition sample_Client :: eks_Client where
  \<comment> \<open>a provider on which every request succeeds\<close>
  "sample_Client = \<lparr>
     Client_Create = (\<lambda>name spec. (Some \<lparr>Cluster_Status = ClusterStatusCreating, Cluster_Endpoint = [],
        Cluster_CA = [], Cluster_Version = ''1.14''\<rparr>, None)),
     Client_Get = (\<lambda>name. (Some \<lparr>Cluster_Status = ClusterStatusActive, Cluster_Endpoint = ''https://eks'',
        Cluster_CA = [], Cluster_Version = ''1.14''\<rparr>, None)),
     Client_Delete = (\<lambda>name. None),
     Client_CreateWorkerNodes = (\<lambda>name version spec. (Some \<lparr>WorkerStackID = ''stack-1'',
        WorkersStatus = ''CREATE_IN_PROGRESS'', WorkerReason = [], WorkerARN = []\<rparr>, None)),
     Client_GetWorkerNodes = (\<lambda>stack. (Some \<lparr>WorkerStackID = stack,
        WorkersStatus = ''CREATE_COMPLETE'', WorkerReason = [], WorkerARN = ''arn:workers''\<rparr>, None)),
     Client_DeleteWorkerNodes = (\<lambda>stack. None),
     eks_IsErrorAlreadyExists = (\<lambda>err. Error err = ''ResourceInUseException''),
     eks_IsErrorBadRequest = (\<lambda>err. Error err = ''InvalidParameterException''),
     eks_IsErrorNotFound = (\<lambda>err. Error err = ''ResourceNotFoundException''),
     cloudformationclient_IsErrorNotFound = (\<lambda>err. Error err = ''ValidationError'')\<rparr>"

definition sample_Cluster :: EKSCluster where
  \<comment> \<open>a created cluster with its worker stack, one subnet reference, not yet resolved\<close>
  "sample_Cluster = EKSCluster_zero\<lparr>UID := ''uid1'',
     Spec := (Spec EKSCluster_zero)\<lparr>ReclaimPolicy := ReclaimDelete, SubnetIDRefs := [''subnet-a'']\<rparr>,
     Status := (Status EKSCluster_zero)\<lparr>ClusterName := ''eks-uid1'',
       CloudFormationStackID := ''stack-1''\<rparr>\<rparr>"

definition sample_Reconciler :: "EKSCluster \<Rightarrow> eks_Client \<Rightarrow> Reconciler" where
  \<comment> \<open>reads the given resource, connects to the given client, writes succeed, and the
      referenced subnet is ready with ID \<open>subnet-1\<close>\<close>
  "sample_Reconciler instance client = \<lparr>
     Get = Inr instance,
     Update = (\<lambda>instance. None),
     ResolveReferences = assignSubnetIDs [''subnet-1''],
     connect = (\<lambda>instance. Inr client),
     awsauth = (\<lambda>cluster instance client arn. None),
     secret = (\<lambda>cluster instance client. None),
     IsNotFound = (\<lambda>err. Error err = ''NotFound''),
     IsReferencesAccessError = (\<lambda>err. Error err = ''references blocked'')\<rparr>"

definition blocked_Reconciler :: "EKSCluster \<Rightarrow> eks_Client \<Rightarrow> Reconciler" where
  \<comment> \<open>as \<open>sample_Reconciler\<close>, but the referenced subnet does not exist\<close>
  "blocked_Reconciler instance client = (sample_Reconciler instance client)\<lparr>
     ResolveReferences := (\<lambda>instance. (Some (errors_New ''references blocked''), instance))\<rparr>"

definition disconnected_Reconciler :: "EKSCluster \<Rightarrow> Reconciler" where
  \<comment> \<open>as \<open>sample_Reconciler\<close>, but the provider cannot be connected to\<close>
  "disconnected_Reconciler instance = (sample_Reconciler instance sample_Client)\<lparr>
     connect := (\<lambda>instance. Inl (errors_New ''no credentials''))\<rparr>"

definition new_Cluster :: EKSCluster where
  \<comment> \<open>the same resource before anything was created for it\<close>
  "new_Cluster = sample_Cluster\<lparr>Status := Status EKSCluster_zero\<rparr>"

definition deleted_Cluster :: EKSCluster where
  \<comment> \<open>the same resource once its deletion was requested\<close>
  "deleted_Cluster = sample_Cluster\<lparr>DeletionTimestamp := Some 1, Finalizers := [finalizer]\<rparr>"

definition absent_Client :: eks_Client where
  \<comment> \<open>a provider on which neither the cluster nor the worker stack exists any more\<close>
  "absent_Client = sample_Client\<lparr>
     Client_Delete := (\<lambda>name. Some (errors_New ''ResourceNotFoundException'')),
     Client_DeleteWorkerNodes := (\<lambda>stack. Some (errors_New ''ValidationError''))\<rparr>"

definition failing_Client :: eks_Client where
  \<comment> \<open>a provider on which both deletions fail\<close>
  "failing_Client = sample_Client\<lparr>
     Client_Delete := (\<lambda>name. Some (errors_New ''throttled'')),
     Client_DeleteWorkerNodes := (\<lambda>stack. Some (errors_New ''stack busy''))\<rparr>"

definition rejecting_Client :: "error \<Rightarrow> eks_Client" where
  \<comment> \<open>a provider that answers a creation request with the given error and no cluster\<close>
  "rejecting_Client err = sample_Client\<lparr>Client_Create := (\<lambda>name spec. (None, Some err))\<rparr>"

definition sample_Attachment :: "string \<Rightarrow> string \<Rightarrow> IAMRolePolicyAttachment" where
  \<comment> \<open>an attachment to role \<open>role-1\<close> with the given attached and desired policies, being created\<close>
  "sample_Attachment attached desired = \<lparr>RoleName = ''role-1'', PolicyARN = desired,
     AttachedPolicyARN = attached, IAM_Conditions = [Creating]\<rparr>"

definition sample_IAMClient :: RolePolicyAttachmentClient where
  \<comment> \<open>a provider that accepts every request and lists no attached policy yet\<close>
  "sample_IAMClient = \<lparr>AttachRolePolicyRequest = (\<lambda>role policy. None),
     DetachRolePolicyRequest = (\<lambda>role policy. None),
     ListAttachedRolePoliciesRequest = (\<lambda>role. Inr [])\<rparr>"


section \<open>Vocabulary of the properties\<close>

definition resolved :: "EKSCluster \<Rightarrow> bool" where
  \<comment> \<open>the resource carries the references-resolved condition with status True\<close>
  "resolved instance = IsConditionTrue (GetCondition instance TypeReferencesResolved)"

definition kept :: "EKSCluster \<Rightarrow> EKSCluster \<Rightarrow> bool" where
  \<comment> \<open>the second resource has the spec and the references-resolved condition of the first\<close>
  "kept i j = (Spec j = Spec i \<and>
     GetCondition j TypeReferencesResolved = GetCondition i TypeReferencesResolved)"

definition written :: "call list \<Rightarrow> EKSCluster list" where
  \<comment> \<open>the resources handed to \<open>Update\<close>\<close>
  "written cs = concat (map (\<lambda>c. case c of Call_Update j \<Rightarrow> [j] | _ \<Rightarrow> []) cs)"

definition keeps :: "EKSCluster \<Rightarrow> outcome \<Rightarrow> bool" where
  \<comment> \<open>a pass that never resolves references and leaves, and writes, only resources
      with the spec and the references-resolved condition of the given one\<close>
  "keeps i out = (kept i (inst out) \<and> Call_ResolveReferences \<notin> set (calls out) \<and>
     list_all (kept i) (written (calls out)))"

definition resolved_Cluster :: EKSCluster where
  \<comment> \<open>\<open>sample_Cluster\<close> as a pass that resolved its subnet reference wrote it\<close>
  "resolved_Cluster =
     SetConditions (snd (assignSubnetIDs [''subnet-1''] sample_Cluster)) [ReferenceResolutionSuccess]"

section \<open>Facts about conditions and outcomes\<close>

lemma find_map_other:
  "t \<noteq> Condition_Type c \<Longrightarrow>
   find (\<lambda>x. Condition_Type x = t) (map (\<lambda>e. if Condition_Type e = Condition_Type c then c else e) cs)
   = find (\<lambda>x. Condition_Type x = t) cs"
  by (induction cs) auto

lemma find_append_other:
  "\<not> P c \<Longrightarrow> find P (cs @ [c]) = find P cs"
  by (induction cs) auto

lemma GetCondition_SetCondition_other:
  "t \<noteq> Condition_Type c \<Longrightarrow>
   ConditionedStatus_GetCondition (SetCondition cs c) t = ConditionedStatus_GetCondition cs t"
  by (simp add: ConditionedStatus_GetCondition_def SetCondition_def find_map_other find_append_other)

lemma find_map_same:
  "list_ex (\<lambda>e. Condition_Type e = Condition_Type c) cs \<Longrightarrow>
   find (\<lambda>x. Condition_Type x = Condition_Type c) (map (\<lambda>e. if Condition_Type e = Condition_Type c then c else e) cs)
   = Some c"
  by (induction cs) auto

lemma find_append_same:
  "\<not> list_ex P cs \<Longrightarrow> P c \<Longrightarrow> find P (cs @ [c]) = Some c"
  by (induction cs) auto

lemma GetCondition_SetCondition_same:
  "ConditionedStatus_GetCondition (SetCondition cs c) (Condition_Type c) = c"
  by (simp add: ConditionedStatus_GetCondition_def SetCondition_def find_map_same find_append_same)

lemma GetCondition_SetConditions1:
  "GetCondition (SetConditions i [c]) t = (if t = Condition_Type c then c else GetCondition i t)"
  by (simp add: GetCondition_def SetConditions_def ConditionedStatus_SetConditions_def
      GetCondition_SetCondition_same GetCondition_SetCondition_other)

lemma GetCondition_SetConditions2:
  "GetCondition (SetConditions i [c, d]) t =
     (if t = Condition_Type d then d else if t = Condition_Type c then c else GetCondition i t)"
  by (simp add: GetCondition_def SetConditions_def ConditionedStatus_SetConditions_def
      GetCondition_SetCondition_same GetCondition_SetCondition_other)

lemma SetConditions_fields:
  "Spec (SetConditions i c) = Spec i"
  "UID (SetConditions i c) = UID i"
  "Finalizers (SetConditions i c) = Finalizers i"
  "DeletionTimestamp (SetConditions i c) = DeletionTimestamp i"
  "ClusterName (Status (SetConditions i c)) = ClusterName (Status i)"
  "CloudFormationStackID (Status (SetConditions i c)) = CloudFormationStackID (Status i)"
  "ClusterVersion (Status (SetConditions i c)) = ClusterVersion (Status i)"
  by (simp_all add: SetConditions_def)

lemma after_simps:
  "ret (after cs out) = ret out"
  "inst (after cs out) = inst out"
  "calls (after cs out) = cs @ calls out"
  by (simp_all add: after_def)

lemma RemoveFinalizer_fields:
  "Spec (RemoveFinalizer i f) = Spec i"
  "Status (RemoveFinalizer i f) = Status i"
  "f \<notin> set (Finalizers (RemoveFinalizer i f))"
  "GetCondition (RemoveFinalizer i f) t = GetCondition i t"
  by (simp_all add: RemoveFinalizer_def GetCondition_def)

lemma masterDeleteError_Nil:
  "(masterDeleteError client m = []) = (\<not> deletionFailed (eks_IsErrorNotFound client) m)"
  by (simp add: masterDeleteError_def deletionFailed_def split: option.splits)

lemma workerDeleteError_Nil:
  "(workerDeleteError client w = []) = (\<not> deletionFailed (cloudformationclient_IsErrorNotFound client) w)"
  by (simp add: workerDeleteError_def deletionFailed_def split: option.splits)

lemma deleteError_other_client:
  "workerDeleteError (client\<lparr>Client_Delete := f\<rparr>) w = workerDeleteError client w"
  "masterDeleteError (client\<lparr>Client_DeleteWorkerNodes := g\<rparr>) m = masterDeleteError client m"
  by (cases w, simp_all add: workerDeleteError_def) (cases m, simp_all add: masterDeleteError_def)

lemma deleteError_absent:
  "eks_IsErrorNotFound client e1 \<Longrightarrow> masterDeleteError client (Some e1) = []"
  "cloudformationclient_IsErrorNotFound client e2 \<Longrightarrow> workerDeleteError client (Some e2) = []"
  "masterDeleteError client None = []"
  "workerDeleteError client None = []"
  by (simp_all add: masterDeleteError_def workerDeleteError_def)

lemma Reconciler_delete_succeeds:
  assumes "\<not> deletionFailed (eks_IsErrorNotFound client) (Client_Delete client (ClusterName (Status instance)))"
    and "CloudFormationStackID (Status instance) = [] \<or>
         \<not> deletionFailed (cloudformationclient_IsErrorNotFound client)
             (Client_DeleteWorkerNodes client (CloudFormationStackID (Status instance)))"
  shows "inst (Reconciler_delete r instance client)
           = SetConditions (RemoveFinalizer (SetConditions instance [Deleting]) finalizer) [ReconcileSuccess]"
    and "ret (Reconciler_delete r instance client)
           = Return \<lparr>Requeue = False, RequeueAfter = 0\<rparr> (Update r (inst (Reconciler_delete r instance client)))"
    and "calls (Reconciler_delete r instance client)
           = (if ReclaimPolicy (Spec instance) = ReclaimDelete
              then Call_Delete (ClusterName (Status instance)) #
                (if CloudFormationStackID (Status instance) \<noteq> []
                 then [Call_DeleteWorkerNodes (CloudFormationStackID (Status instance))] else [])
              else []) @ [Call_Update (inst (Reconciler_delete r instance client))]"
  using assms
  by (auto simp add: Reconciler_delete_def Let_def SetConditions_fields after_simps delete_finish_def
      masterDeleteError_Nil workerDeleteError_Nil)

lemma Reconciler_delete_fails:
  assumes "ReclaimPolicy (Spec instance) = ReclaimDelete"
    and "deletionFailed (eks_IsErrorNotFound client) (Client_Delete client (ClusterName (Status instance)))
         \<or> CloudFormationStackID (Status instance) \<noteq> [] \<and>
           deletionFailed (cloudformationclient_IsErrorNotFound client)
             (Client_DeleteWorkerNodes client (CloudFormationStackID (Status instance)))"
  shows "inst (Reconciler_delete r instance client)
           = SetConditions (SetConditions instance [Deleting])
               [ReconcileError (errors_New (strings_Join
                  (masterDeleteError client (Client_Delete client (ClusterName (Status instance))) @
                   (if CloudFormationStackID (Status instance) \<noteq> []
                    then workerDeleteError client (Client_DeleteWorkerNodes client (CloudFormationStackID (Status instance)))
                    else [])) '', ''))]"
    and "ret (Reconciler_delete r instance client)
           = Return \<lparr>Requeue = False, RequeueAfter = aShortWait\<rparr> (Update r (inst (Reconciler_delete r instance client)))"
    and "calls (Reconciler_delete r instance client)
           = Call_Delete (ClusterName (Status instance)) #
                (if CloudFormationStackID (Status instance) \<noteq> []
                 then [Call_DeleteWorkerNodes (CloudFormationStackID (Status instance))] else [])
              @ [Call_Update (inst (Reconciler_delete r instance client))]"
  using assms
  by (auto simp add: Reconciler_delete_def Let_def SetConditions_fields after_simps fail_def
      masterDeleteError_Nil workerDeleteError_Nil)

lemma strings_Join_simps:
  "strings_Join [] sep = []"
  "strings_Join [a] sep = a"
  "strings_Join [a, b] sep = a @ sep @ b"
  by (simp_all add: strings_Join_def)

lemma sublist_joined:
  "sublist a (a @ sep @ b)"
  "sublist b (a @ sep @ b)"
  "sublist a a"
proof -
  show "sublist a (a @ sep @ b)"
    using sublist_appendI [of a "[]" "sep @ b"] by simp
  show "sublist b (a @ sep @ b)"
    using sublist_appendI [of b "a @ sep" "[]"] by simp
  show "sublist a a"
    by simp
qed

lemma deleteError_failed:
  "deletionFailed (eks_IsErrorNotFound client) (Some e1) \<Longrightarrow>
     masterDeleteError client (Some e1) = [''Master Delete Error: '' @ Error e1]"
  "deletionFailed (cloudformationclient_IsErrorNotFound client) (Some e2) \<Longrightarrow>
     workerDeleteError client (Some e2) = [''Worker Delete Error: '' @ Error e2]"
  by (simp_all add: masterDeleteError_def workerDeleteError_def deletionFailed_def)

lemma Condition_Type_simps:
  "Condition_Type Creating = TypeReady"
  "Condition_Type Deleting = TypeReady"
  "Condition_Type Available = TypeReady"
  "Condition_Type ReconcileSuccess = TypeSynced"
  "Condition_Type (ReconcileError e) = TypeSynced"
  "Condition_Type ReferenceResolutionSuccess = TypeReferencesResolved"
  "Condition_Type (ReferenceResolutionBlocked e) = TypeReferencesResolved"
  by (simp_all add: Creating_def Deleting_def Available_def ReconcileSuccess_def ReconcileError_def
      ReferenceResolutionSuccess_def ReferenceResolutionBlocked_def)

lemma kept_refl: "kept i i"
  by (simp add: kept_def)

lemma kept_SetConditions:
  "Condition_Type c \<noteq> TypeReferencesResolved \<Longrightarrow> kept i (SetConditions j [c]) = kept i j"
  "Condition_Type c \<noteq> TypeReferencesResolved \<Longrightarrow> Condition_Type d \<noteq> TypeReferencesResolved \<Longrightarrow>
     kept i (SetConditions j [c, d]) = kept i j"
  by (auto simp add: kept_def SetConditions_fields GetCondition_SetConditions1 GetCondition_SetConditions2)

lemma kept_Status:
  "Conditions st = Conditions (Status j) \<Longrightarrow> kept i (j\<lparr>Status := st\<rparr>) = kept i j"
  by (simp add: kept_def GetCondition_def)

lemma kept_meta:
  "kept i (AddFinalizer j f) = kept i j"
  "kept i (RemoveFinalizer j f) = kept i j"
  "kept i (SetBindable j) = kept i j"
  by (simp_all add: kept_def GetCondition_def AddFinalizer_def RemoveFinalizer_def SetBindable_def)

lemma written_simps:
  "written [] = []"
  "written (Call_Update j # cs) = j # written cs"
  "written (Call_Get # cs) = written cs"
  "written (Call_connect # cs) = written cs"
  "written (Call_ResolveReferences # cs) = written cs"
  "written (Call_Create n s # cs) = written cs"
  "written (Call_ClientGet n # cs) = written cs"
  "written (Call_Delete n # cs) = written cs"
  "written (Call_CreateWorkerNodes n v s # cs) = written cs"
  "written (Call_GetWorkerNodes n # cs) = written cs"
  "written (Call_DeleteWorkerNodes n # cs) = written cs"
  "written (Call_awsauth # cs) = written cs"
  "written (Call_secret # cs) = written cs"
  "written (xs @ ys) = written xs @ written ys"
  by (simp_all add: written_def)

lemma keeps_outcome:
  "keeps i \<lparr>ret = x, inst = j, calls = cs\<rparr> =
     (kept i j \<and> Call_ResolveReferences \<notin> set cs \<and> list_all (kept i) (written cs))"
  by (simp add: keeps_def)

lemma keeps_after:
  "keeps i (after cs out) =
     (keeps i out \<and> Call_ResolveReferences \<notin> set cs \<and> list_all (kept i) (written cs))"
  by (auto simp add: keeps_def after_simps written_simps)

lemma keeps_fail: "keeps i (fail r j e) = kept i j"
  by (simp add: fail_def keeps_outcome Let_def written_simps kept_SetConditions Condition_Type_simps)

lemma keeps_create_rest: "kept i j \<Longrightarrow> keeps i (create_rest r j n c)"
  by (simp add: create_rest_def keeps_outcome Let_def written_simps kept_SetConditions
      kept_Status Condition_Type_simps split: option.splits)

lemma keeps_create: "kept i j \<Longrightarrow> keeps i (Reconciler_create r j client)"
  by (simp add: Reconciler_create_def keeps_outcome keeps_after keeps_fail keeps_create_rest
      Let_def written_simps kept_SetConditions Condition_Type_simps split: option.splits prod.splits)

lemma keeps_sync_workers: "kept i j \<Longrightarrow> keeps i (sync_workers r j client cluster)"
  by (simp add: sync_workers_def keeps_outcome keeps_after keeps_fail
      Let_def written_simps kept_SetConditions kept_Status kept_meta Condition_Type_simps
      split: option.splits prod.splits)

lemma keeps_sync: "kept i j \<Longrightarrow> keeps i (Reconciler_sync r j client)"
  by (simp add: Reconciler_sync_def keeps_outcome keeps_after keeps_fail keeps_sync_workers
      Let_def written_simps kept_SetConditions kept_Status Condition_Type_simps
      split: option.splits prod.splits)

lemma keeps_delete_finish: "kept i j \<Longrightarrow> keeps i (delete_finish r j)"
  by (simp add: delete_finish_def keeps_outcome Let_def written_simps kept_SetConditions
      kept_meta Condition_Type_simps)

lemma keeps_delete: "kept i j \<Longrightarrow> keeps i (Reconciler_delete r j client)"
  by (simp add: Reconciler_delete_def keeps_after keeps_fail keeps_delete_finish
      Let_def written_simps kept_SetConditions Condition_Type_simps split: prod.splits)

lemma keeps_provision: "kept i j \<Longrightarrow> keeps i (Reconcile_provision r j client)"
  by (simp add: Reconcile_provision_def keeps_create keeps_sync keeps_delete Let_def kept_meta)

lemma keeps_Reconcile:
  assumes "resolved i" and "Get r = Inr i"
  shows "keeps i (Reconcile r)"
  using assms
  by (simp add: Reconcile_def resolved_def keeps_after keeps_fail keeps_provision kept_refl
      written_simps split: sum.splits)

lemma keeps_Reconcile_no_resource:
  assumes "Get r = Inl e"
  shows "calls (Reconcile r) = [Call_Get]"
  using assms by (simp add: Reconcile_def)

lemma kept_trans: "kept i j \<Longrightarrow> kept j k \<Longrightarrow> kept i k"
  by (simp add: kept_def)

lemma kept_resolved: "kept i j \<Longrightarrow> resolved i \<Longrightarrow> resolved j"
  by (simp add: kept_def resolved_def)

lemma kept_stored_after:
  "kept i s \<Longrightarrow> list_all (kept i) (written cs) \<Longrightarrow> kept i (stored_after r s cs)"
proof (induction cs arbitrary: s)
  case Nil
  then show ?case by (simp add: stored_after_def)
next
  case (Cons c cs)
  then show ?case
    by (cases c) (simp_all add: stored_after_def written_simps)
qed

lemma keeps_pass:
  assumes "resolved stored"
  shows "Call_ResolveReferences \<notin> set (calls (Reconcile (reading r stored)))"
    and "list_all (kept stored) (written (calls (Reconcile (reading r stored))))"
proof -
  show "Call_ResolveReferences \<notin> set (calls (Reconcile (reading r stored)))"
  proof (cases "Get r")
    case (Inl e)
    then have "Get (reading r stored) = Inl e" by (simp add: reading_def)
    then show ?thesis by (simp add: keeps_Reconcile_no_resource)
  next
    case (Inr i)
    then have "Get (reading r stored) = Inr stored" by (simp add: reading_def)
    with assms have "keeps stored (Reconcile (reading r stored))" by (rule keeps_Reconcile)
    then show ?thesis by (simp add: keeps_def)
  qed
  show "list_all (kept stored) (written (calls (Reconcile (reading r stored))))"
  proof (cases "Get r")
    case (Inl e)
    then have "Get (reading r stored) = Inl e" by (simp add: reading_def)
    then show ?thesis by (simp add: keeps_Reconcile_no_resource written_simps)
  next
    case (Inr i)
    then have "Get (reading r stored) = Inr stored" by (simp add: reading_def)
    with assms have "keeps stored (Reconcile (reading r stored))" by (rule keeps_Reconcile)
    then show ?thesis by (simp add: keeps_def)
  qed
qed

lemma passes_keep:
  "resolved stored \<Longrightarrow>
     kept stored (fst (passes rs stored))
     \<and> Call_ResolveReferences \<notin> set (snd (passes rs stored))
     \<and> list_all (kept stored) (written (snd (passes rs stored)))"
proof (induction rs arbitrary: stored)
  case Nil
  then show ?case by (simp add: kept_refl written_simps)
next
  case (Cons r rs)
  let ?cs = "calls (Reconcile (reading r stored))"
  let ?next = "stored_after r stored ?cs"
  note p = keeps_pass [OF Cons.prems, of r]
  have k: "kept stored ?next"
    using p(2) by (simp add: kept_stored_after kept_refl)
  from k Cons.prems have "resolved ?next" by (rule kept_resolved)
  then have ih: "kept ?next (fst (passes rs ?next))
     \<and> Call_ResolveReferences \<notin> set (snd (passes rs ?next))
     \<and> list_all (kept ?next) (written (snd (passes rs ?next)))"
    by (rule Cons.IH)
  from ih k have w: "list_all (kept stored) (written (snd (passes rs ?next)))"
    by (auto simp add: list_all_iff intro: kept_trans)
  from ih k have f: "kept stored (fst (passes rs ?next))"
    by (blast intro: kept_trans)
  show ?case
    using p ih w f
    by (simp add: Let_def written_simps case_prod_beta)
qed

lemma assignSubnetIDs_appends:
  "SubnetIDs (Spec (snd (assignSubnetIDs [v] i))) = SubnetIDs (Spec i) @ [v]"
  "SubnetIDs (Spec (snd (assignSubnetIDs [v] (snd (assignSubnetIDs [v] i))))) = SubnetIDs (Spec i) @ [v, v]"
  by (simp_all add: assignSubnetIDs_def SubnetIDReferencerForEKSCluster_Assign_def)

lemma Reconcile_resolution_fails:
  assumes "Get r = Inr instance"
    and "connect r instance = Inr eksClient"
    and "\<not> IsConditionTrue (GetCondition instance TypeReferencesResolved)"
    and "ResolveReferences r instance = (Some err, unresolved)"
  shows "inst (Reconcile r) = SetConditions unresolved
           [if IsReferencesAccessError r err then ReferenceResolutionBlocked err else ReconcileError err]"
    and "ret (Reconcile r) = Return \<lparr>Requeue = False, RequeueAfter = aLongWait\<rparr>
           (errors_Wrap (Update r (inst (Reconcile r))) errUpdateManagedStatus)"
    and "calls (Reconcile r) = [Call_Get, Call_connect, Call_ResolveReferences, Call_Update (inst (Reconcile r))]"
  using assms
  by (simp_all add: Reconcile_def Let_def)

lemma sample_unresolved:
  "\<not> IsConditionTrue (GetCondition sample_Cluster TypeReferencesResolved)"
  "\<not> IsConditionTrue (GetCondition deleted_Cluster TypeReferencesResolved)"
  by (simp_all add: deleted_Cluster_def sample_Cluster_def EKSCluster_zero_def GetCondition_def
      ConditionedStatus_GetCondition_def IsConditionTrue_def)

lemma Reconcile_records_resolution:
  assumes "Get r = Inr instance"
    and "connect r instance = Inr eksClient"
    and "\<not> IsConditionTrue (GetCondition instance TypeReferencesResolved)"
    and "ResolveReferences r instance = (None, resolved_instance)"
  shows "resolved (inst (Reconcile r))"
    and "list_all resolved (written (calls (Reconcile r)))"
    and "list_all (\<lambda>j. Spec j = Spec resolved_instance) (written (calls (Reconcile r)))"
proof -
  let ?i = "SetConditions resolved_instance [ReferenceResolutionSuccess]"
  have r: "resolved ?i"
    by (simp add: resolved_def GetCondition_SetConditions1 ReferenceResolutionSuccess_def
        IsConditionTrue_def)
  have "Reconcile r = after [Call_Get, Call_connect, Call_ResolveReferences]
          (Reconcile_provision r ?i eksClient)"
    using assms by (simp add: Reconcile_def)
  moreover have "keeps ?i (Reconcile_provision r ?i eksClient)"
    by (simp add: keeps_provision kept_refl)
  ultimately have k: "kept ?i (inst (Reconcile r))" "list_all (kept ?i) (written (calls (Reconcile r)))"
    by (simp_all add: keeps_def after_simps written_simps)
  from k(1) r show "resolved (inst (Reconcile r))"
    by (rule kept_resolved)
  from k(2) r show "list_all resolved (written (calls (Reconcile r)))"
    by (auto simp add: list_all_iff intro: kept_resolved)
  from k(2) show "list_all (\<lambda>j. Spec j = Spec resolved_instance) (written (calls (Reconcile r)))"
    by (auto simp add: list_all_iff kept_def SetConditions_fields)
qed



section \<open>The Delete branch\<close>

text \<open>
  C4 (as stated): in the Delete branch the deletion of the worker-node stack is
  requested before the deletion of the cluster master. On a cluster with both, the
  first call of \<open>_delete\<close> is the deletion of the master and the second the deletion
  of the worker stack.
\<close>

theorem delete_order_counterexample:
  "ReclaimPolicy (Spec sample_Cluster) = ReclaimDelete \<and>
   calls (Reconciler_delete (sample_Reconciler sample_Cluster sample_Client) sample_Cluster sample_Client) ! 0
     = Call_Delete ''eks-uid1'' \<and>
   calls (Reconciler_delete (sample_Reconciler sample_Cluster sample_Client) sample_Cluster sample_Client) ! 1
     = Call_DeleteWorkerNodes ''stack-1''"
  by (simp add: Reconciler_delete_def sample_Cluster_def sample_Client_def sample_Reconciler_def
      EKSCluster_zero_def ReclaimDelete_def SetConditions_def masterDeleteError_def
      workerDeleteError_def delete_finish_def after_def Let_def)

text \<open>
  C4 (amended): in the Delete branch of a resource whose reclaim policy is Delete and
  that records a worker stack, the deletion of the cluster master is requested first
  and the deletion of the worker-node stack second.
\<close>

theorem delete_master_before_workers:
  assumes "ReclaimPolicy (Spec instance) = ReclaimDelete"
    and "CloudFormationStackID (Status instance) \<noteq> []"
  shows "take 2 (calls (Reconciler_delete r instance client)) =
           [Call_Delete (ClusterName (Status instance)),
            Call_DeleteWorkerNodes (CloudFormationStackID (Status instance))]"
  using assms
  by (simp add: Reconciler_delete_def Let_def SetConditions_fields after_simps)

theorem delete_master_before_workers_witness:
  "take 2 (calls (Reconciler_delete (sample_Reconciler sample_Cluster sample_Client) sample_Cluster sample_Client)) =
           [Call_Delete ''eks-uid1'', Call_DeleteWorkerNodes ''stack-1'']"
proof -
  have a: "ReclaimPolicy (Spec sample_Cluster) = ReclaimDelete"
    by (simp add: sample_Cluster_def)
  have b: "CloudFormationStackID (Status sample_Cluster) \<noteq> []"
    by (simp add: sample_Cluster_def)
  show ?thesis
    using delete_master_before_workers [OF a b, of "sample_Reconciler sample_Cluster sample_Client" sample_Client]
    by (simp add: sample_Cluster_def)
qed

text \<open>
  C5: in a Delete-branch pass (reclaim policy Delete) in which a deletion call fails
  with an error that is not a not-found error, both deletions are still requested, the
  pass fails through \<open>fail\<close> with one error whose text names every failure (both texts,
  joined, when both calls fail), requeues after the short wait and leaves the
  finalizers as they were; and a finalizer that a pass removes tells that no deletion
  call of that pass failed.
\<close>

theorem delete_accumulates_errors:
  assumes "ReclaimPolicy (Spec instance) = ReclaimDelete"
    and "m = Client_Delete client (ClusterName (Status instance))"
    and "w = Client_DeleteWorkerNodes client (CloudFormationStackID (Status instance))"
    and "masterFailed = deletionFailed (eks_IsErrorNotFound client) m"
    and "workerFailed = (CloudFormationStackID (Status instance) \<noteq> [] \<and>
           deletionFailed (cloudformationclient_IsErrorNotFound client) w)"
    and "out = Reconciler_delete r instance client"
    and "message = Condition_Message (GetCondition (inst out) TypeSynced)"
  shows "(masterFailed \<or> workerFailed \<longrightarrow>
            Finalizers (inst out) = Finalizers instance
          \<and> GetCondition (inst out) TypeSynced = ReconcileError (errors_New message)
          \<and> ret out = Return \<lparr>Requeue = False, RequeueAfter = aShortWait\<rparr> (Update r (inst out))
          \<and> calls out = Call_Delete (ClusterName (Status instance)) #
                (if CloudFormationStackID (Status instance) \<noteq> []
                 then [Call_DeleteWorkerNodes (CloudFormationStackID (Status instance))] else [])
              @ [Call_Update (inst out)]
          \<and> (masterFailed \<and> m = Some e1 \<longrightarrow> sublist (''Master Delete Error: '' @ Error e1) message)
          \<and> (workerFailed \<and> w = Some e2 \<longrightarrow> sublist (''Worker Delete Error: '' @ Error e2) message)
          \<and> (masterFailed \<and> m = Some e1 \<and> workerFailed \<and> w = Some e2 \<longrightarrow>
               message = (''Master Delete Error: '' @ Error e1) @ '', '' @ (''Worker Delete Error: '' @ Error e2)))
       \<and> (finalizer \<in> set (Finalizers instance) \<and> finalizer \<notin> set (Finalizers (inst out)) \<longrightarrow>
            \<not> masterFailed \<and> \<not> workerFailed)"
proof -
  let ?stack = "CloudFormationStackID (Status instance)"
  let ?M = "''Master Delete Error: '' @ Error e1"
  let ?W = "''Worker Delete Error: '' @ Error e2"
  have failed: "Finalizers (inst out) = Finalizers instance
          \<and> GetCondition (inst out) TypeSynced = ReconcileError (errors_New message)
          \<and> ret out = Return \<lparr>Requeue = False, RequeueAfter = aShortWait\<rparr> (Update r (inst out))
          \<and> calls out = Call_Delete (ClusterName (Status instance)) #
                (if ?stack \<noteq> [] then [Call_DeleteWorkerNodes ?stack] else []) @ [Call_Update (inst out)]
          \<and> message = strings_Join (masterDeleteError client m @
                (if ?stack \<noteq> [] then workerDeleteError client w else [])) '', ''"
    if f: "masterFailed \<or> workerFailed"
  proof -
    from f have f': "deletionFailed (eks_IsErrorNotFound client) (Client_Delete client (ClusterName (Status instance)))
         \<or> ?stack \<noteq> [] \<and> deletionFailed (cloudformationclient_IsErrorNotFound client)
             (Client_DeleteWorkerNodes client ?stack)"
      by (simp add: assms(2-5))
    note d = Reconciler_delete_fails [OF assms(1) f', of r]
    show ?thesis
      using d(2) d(3)
      by (simp add: assms(2,3,6,7) d(1) SetConditions_fields GetCondition_SetConditions1 ReconcileError_def)
  qed
  have msg_both: "message = ?M @ '', '' @ ?W"
    if "masterFailed" "m = Some e1" "workerFailed" "w = Some e2"
  proof -
    from that assms(4,5) have "masterDeleteError client m = [?M]" "workerDeleteError client w = [?W]" "?stack \<noteq> []"
      by (simp_all add: deleteError_failed)
    with failed that show ?thesis
      by (simp add: strings_Join_simps)
  qed
  have msg_master: "message = ?M"
    if "masterFailed" "m = Some e1" "\<not> workerFailed"
  proof -
    from that assms(4,5) have "masterDeleteError client m = [?M]"
      "?stack = [] \<or> workerDeleteError client w = []"
      by (simp_all add: deleteError_failed workerDeleteError_Nil)
    with failed that show ?thesis
      by (auto simp add: strings_Join_simps)
  qed
  have msg_worker: "message = ?W"
    if "\<not> masterFailed" "workerFailed" "w = Some e2"
  proof -
    from that assms(4,5) have "masterDeleteError client m = []" "workerDeleteError client w = [?W]" "?stack \<noteq> []"
      by (simp_all add: deleteError_failed masterDeleteError_Nil)
    with failed that show ?thesis
      by (simp add: strings_Join_simps)
  qed
  have names_master: "sublist ?M message" if "masterFailed" "m = Some e1"
  proof (cases workerFailed)
    case False
    with that have "message = ?M" by (rule msg_master)
    then show ?thesis by (simp only: sublist_joined)
  next
    case True
    with assms(5) obtain e where e: "w = Some e"
      by (cases w) (simp_all add: deletionFailed_def)
    have "message = ?M @ '', '' @ (''Worker Delete Error: '' @ Error e)"
    proof -
      from that True e assms(4,5) have "masterDeleteError client m = [?M]"
        "workerDeleteError client w = [''Worker Delete Error: '' @ Error e]" "?stack \<noteq> []"
        by (simp_all add: deleteError_failed)
      with failed that show ?thesis
        by (simp add: strings_Join_simps)
    qed
    then show ?thesis by (simp only: sublist_joined)
  qed
  have names_worker: "sublist ?W message" if "workerFailed" "w = Some e2"
  proof (cases masterFailed)
    case False
    from False that have "message = ?W" by (rule msg_worker)
    then show ?thesis by (simp only: sublist_joined)
  next
    case True
    with assms(4) obtain e where e: "m = Some e"
      by (cases m) (simp_all add: deletionFailed_def)
    have "message = (''Master Delete Error: '' @ Error e) @ '', '' @ ?W"
    proof -
      from that True e assms(4,5) have "masterDeleteError client m = [''Master Delete Error: '' @ Error e]"
        "workerDeleteError client w = [?W]" "?stack \<noteq> []"
        by (simp_all add: deleteError_failed)
      with failed True show ?thesis
        by (simp add: strings_Join_simps)
    qed
    then show ?thesis by (simp only: sublist_joined)
  qed
  have removed: "\<not> masterFailed \<and> \<not> workerFailed"
    if "finalizer \<in> set (Finalizers instance)" "finalizer \<notin> set (Finalizers (inst out))"
    using failed that by auto
  show ?thesis
    using failed msg_both names_master names_worker removed by blast
qed

theorem delete_accumulates_errors_witness:
  "Finalizers (inst (Reconciler_delete (sample_Reconciler deleted_Cluster failing_Client) deleted_Cluster failing_Client))
     = [finalizer]
   \<and> Condition_Message (GetCondition (inst (Reconciler_delete (sample_Reconciler deleted_Cluster failing_Client)
        deleted_Cluster failing_Client)) TypeSynced)
     = ''Master Delete Error: throttled, Worker Delete Error: stack busy''
   \<and> ret (Reconciler_delete (sample_Reconciler deleted_Cluster failing_Client) deleted_Cluster failing_Client)
     = Return \<lparr>Requeue = False, RequeueAfter = 30000000000\<rparr> None"
proof -
  let ?r = "sample_Reconciler deleted_Cluster failing_Client"
  let ?out = "Reconciler_delete ?r deleted_Cluster failing_Client"
  have p: "ReclaimPolicy (Spec deleted_Cluster) = ReclaimDelete"
    by (simp add: deleted_Cluster_def sample_Cluster_def)
  have m: "Client_Delete failing_Client (ClusterName (Status deleted_Cluster)) = Some (errors_New ''throttled'')"
    by (simp add: failing_Client_def)
  have w: "Client_DeleteWorkerNodes failing_Client (CloudFormationStackID (Status deleted_Cluster))
             = Some (errors_New ''stack busy'')"
    by (simp add: failing_Client_def)
  have mf: "deletionFailed (eks_IsErrorNotFound failing_Client)
              (Client_Delete failing_Client (ClusterName (Status deleted_Cluster)))"
    by (simp add: failing_Client_def sample_Client_def deletionFailed_def)
  have wf: "CloudFormationStackID (Status deleted_Cluster) \<noteq> [] \<and>
            deletionFailed (cloudformationclient_IsErrorNotFound failing_Client)
              (Client_DeleteWorkerNodes failing_Client (CloudFormationStackID (Status deleted_Cluster)))"
    by (simp add: failing_Client_def sample_Client_def deletionFailed_def deleted_Cluster_def
        sample_Cluster_def)
  have u: "Update ?r (inst ?out) = None"
    by (simp add: sample_Reconciler_def)
  note t = delete_accumulates_errors [OF p refl refl refl refl refl refl,
      of failing_Client ?r "errors_New ''throttled''" "errors_New ''stack busy''"]
  from t mf wf m w have c1: "Finalizers (inst ?out) = Finalizers deleted_Cluster"
    by blast
  from t mf wf m w have c2: "Condition_Message (GetCondition (inst ?out) TypeSynced)
      = (''Master Delete Error: '' @ Error (errors_New ''throttled'')) @ '', '' @
        (''Worker Delete Error: '' @ Error (errors_New ''stack busy''))"
    by blast
  from t mf wf have "ret ?out = Return \<lparr>Requeue = False, RequeueAfter = aShortWait\<rparr> (Update ?r (inst ?out))"
    by blast
  with u have c3: "ret ?out = Return \<lparr>Requeue = False, RequeueAfter = 30000000000\<rparr> None"
    by (simp add: aShortWait_def Second_def)
  from c1 have c1': "Finalizers (inst ?out) = [finalizer]"
    by (simp add: deleted_Cluster_def)
  from c2 have c2': "Condition_Message (GetCondition (inst ?out) TypeSynced)
      = ''Master Delete Error: throttled, Worker Delete Error: stack busy''"
    by simp
  show ?thesis
    using c1' c2' c3 by blast
qed

text \<open>
  C7: when the external objects are already absent, the not-found responses of the
  deletion calls count as success: the pass ends as it does when the same call
  succeeds, and when both calls answer not-found the finalizer is removed, the
  reconcile-success condition is set and no requeue is asked for.
\<close>

theorem delete_not_found_is_success:
  assumes "eks_IsErrorNotFound client e1"
    and "cloudformationclient_IsErrorNotFound client e2"
  shows "(Client_Delete client (ClusterName (Status instance)) = Some e1 \<longrightarrow>
            Reconciler_delete r instance client
              = Reconciler_delete r instance (client\<lparr>Client_Delete := (\<lambda>name. None)\<rparr>))
       \<and> (Client_DeleteWorkerNodes client (CloudFormationStackID (Status instance)) = Some e2 \<longrightarrow>
            Reconciler_delete r instance client
              = Reconciler_delete r instance (client\<lparr>Client_DeleteWorkerNodes := (\<lambda>stack. None)\<rparr>))
       \<and> (Client_Delete client (ClusterName (Status instance)) = Some e1
            \<and> Client_DeleteWorkerNodes client (CloudFormationStackID (Status instance)) = Some e2 \<longrightarrow>
            finalizer \<notin> set (Finalizers (inst (Reconciler_delete r instance client)))
            \<and> GetCondition (inst (Reconciler_delete r instance client)) TypeSynced = ReconcileSuccess
            \<and> ret (Reconciler_delete r instance client)
                = Return \<lparr>Requeue = False, RequeueAfter = 0\<rparr>
                    (Update r (inst (Reconciler_delete r instance client))))"
proof -
  have c1: "Reconciler_delete r instance client
      = Reconciler_delete r instance (client\<lparr>Client_Delete := (\<lambda>name. None)\<rparr>)"
    if "Client_Delete client (ClusterName (Status instance)) = Some e1"
    using that assms(1)
    by (simp add: Reconciler_delete_def deleteError_other_client deleteError_absent
        SetConditions_fields Let_def)
  have c2: "Reconciler_delete r instance client
      = Reconciler_delete r instance (client\<lparr>Client_DeleteWorkerNodes := (\<lambda>stack. None)\<rparr>)"
    if "Client_DeleteWorkerNodes client (CloudFormationStackID (Status instance)) = Some e2"
    using that assms(2)
    by (simp add: Reconciler_delete_def deleteError_other_client deleteError_absent
        SetConditions_fields Let_def)
  have c3: "finalizer \<notin> set (Finalizers (inst (Reconciler_delete r instance client)))
            \<and> GetCondition (inst (Reconciler_delete r instance client)) TypeSynced = ReconcileSuccess
            \<and> ret (Reconciler_delete r instance client)
                = Return \<lparr>Requeue = False, RequeueAfter = 0\<rparr>
                    (Update r (inst (Reconciler_delete r instance client)))"
    if "Client_Delete client (ClusterName (Status instance)) = Some e1"
      and "Client_DeleteWorkerNodes client (CloudFormationStackID (Status instance)) = Some e2"
  proof -
    from that assms have
      m: "\<not> deletionFailed (eks_IsErrorNotFound client) (Client_Delete client (ClusterName (Status instance)))"
      and w: "CloudFormationStackID (Status instance) = [] \<or>
           \<not> deletionFailed (cloudformationclient_IsErrorNotFound client)
               (Client_DeleteWorkerNodes client (CloudFormationStackID (Status instance)))"
      by (simp_all add: deletionFailed_def)
    note d = Reconciler_delete_succeeds [OF m w, of r]
    show ?thesis
      using d(2) by (simp add: d(1) SetConditions_fields RemoveFinalizer_fields
          GetCondition_SetConditions1 ReconcileSuccess_def)
  qed
  show ?thesis
    using c1 c2 c3 by blast
qed

theorem delete_not_found_is_success_witness:
  "Reconciler_delete (sample_Reconciler deleted_Cluster absent_Client) deleted_Cluster absent_Client
     = Reconciler_delete (sample_Reconciler deleted_Cluster absent_Client) deleted_Cluster
         (absent_Client\<lparr>Client_Delete := (\<lambda>name. None)\<rparr>)
   \<and> finalizer \<in> set (Finalizers deleted_Cluster)
   \<and> finalizer \<notin> set (Finalizers (inst (Reconciler_delete (sample_Reconciler deleted_Cluster absent_Client)
        deleted_Cluster absent_Client)))
   \<and> ret (Reconciler_delete (sample_Reconciler deleted_Cluster absent_Client) deleted_Cluster absent_Client)
        = Return \<lparr>Requeue = False, RequeueAfter = 0\<rparr> None"
proof -
  let ?r = "sample_Reconciler deleted_Cluster absent_Client"
  have n1: "eks_IsErrorNotFound absent_Client (errors_New ''ResourceNotFoundException'')"
    by (simp add: absent_Client_def sample_Client_def)
  have n2: "cloudformationclient_IsErrorNotFound absent_Client (errors_New ''ValidationError'')"
    by (simp add: absent_Client_def sample_Client_def)
  have m: "Client_Delete absent_Client (ClusterName (Status deleted_Cluster))
             = Some (errors_New ''ResourceNotFoundException'')"
    by (simp add: absent_Client_def)
  have w: "Client_DeleteWorkerNodes absent_Client (CloudFormationStackID (Status deleted_Cluster))
             = Some (errors_New ''ValidationError'')"
    by (simp add: absent_Client_def)
  have f: "finalizer \<in> set (Finalizers deleted_Cluster)"
    by (simp add: deleted_Cluster_def)
  have u: "\<And>i. Update ?r i = None"
    by (simp add: sample_Reconciler_def)
  note t = delete_not_found_is_success [OF n1 n2, of deleted_Cluster ?r]
  from t m have c1: "Reconciler_delete ?r deleted_Cluster absent_Client
     = Reconciler_delete ?r deleted_Cluster (absent_Client\<lparr>Client_Delete := (\<lambda>name. None)\<rparr>)"
    by blast
  from t m w have c2: "finalizer \<notin> set (Finalizers (inst (Reconciler_delete ?r deleted_Cluster absent_Client)))"
    by blast
  from t m w have "ret (Reconciler_delete ?r deleted_Cluster absent_Client)
     = Return \<lparr>Requeue = False, RequeueAfter = 0\<rparr> (Update ?r (inst (Reconciler_delete ?r deleted_Cluster absent_Client)))"
    by blast
  with u have c3: "ret (Reconciler_delete ?r deleted_Cluster absent_Client)
     = Return \<lparr>Requeue = False, RequeueAfter = 0\<rparr> None"
    by simp
  show ?thesis
    using c1 c2 c3 f by blast
qed

section \<open>The Create branch\<close>

text \<open>
  C6: when the external object already exists, \<open>_create\<close> treats the provider's
  already-exists response as success, returns without error and the pass continues as a
  successful creation. The code departs from this: \<open>_create\<close> does skip its error
  branch on such a response, but then reads the version of the cluster that
  \<open>client.Create\<close> returned. When the client returns no cluster next to the error, as
  a failed call does, the read is a nil dereference: the pass panics right after the
  creation request, without writing any status.
\<close>

theorem create_already_exists_nil_cluster:
  "eks_IsErrorAlreadyExists (rejecting_Client (errors_New ''ResourceInUseException''))
     (errors_New ''ResourceInUseException'') \<and>
   Client_Create (rejecting_Client (errors_New ''ResourceInUseException'')) (clusterNamePrefix @ UID new_Cluster) (Spec new_Cluster)
     = (None, Some (errors_New ''ResourceInUseException'')) \<and>
   ret (Reconciler_create (sample_Reconciler new_Cluster (rejecting_Client (errors_New ''ResourceInUseException'')))
          new_Cluster (rejecting_Client (errors_New ''ResourceInUseException''))) = Panic \<and>
   calls (Reconciler_create (sample_Reconciler new_Cluster (rejecting_Client (errors_New ''ResourceInUseException'')))
          new_Cluster (rejecting_Client (errors_New ''ResourceInUseException'')))
     = [Call_Create ''eks-uid1'' (Spec new_Cluster)]"
  by (simp add: Reconciler_create_def rejecting_Client_def sample_Client_def create_rest_def
      after_def new_Cluster_def sample_Cluster_def EKSCluster_zero_def SetConditions_def
      clusterNamePrefix_def Let_def)

text \<open>
  When the client does return a cluster next to the already-exists error, the pass
  goes on as after a creation.
\<close>

lemma create_already_exists_with_cluster:
  assumes "Client_Create client (clusterNamePrefix @ UID instance) (Spec instance) = (Some c, Some err)"
    and "eks_IsErrorAlreadyExists client err"
  shows "ret (Reconciler_create r instance client) =
           Return \<lparr>Requeue = False, RequeueAfter = aShortWait\<rparr> (Update r (inst (Reconciler_create r instance client)))
       \<and> GetCondition (inst (Reconciler_create r instance client)) TypeSynced = ReconcileSuccess
       \<and> ClusterName (Status (inst (Reconciler_create r instance client))) = clusterNamePrefix @ UID instance"
  using assms
  by (simp add: Reconciler_create_def create_rest_def Let_def SetConditions_fields after_simps
      GetCondition_SetConditions1 ReconcileSuccess_def)

text \<open>
  C9: when the provider rejects the creation request as a bad request (and not as
  already existing), the pass sets the reconcile-error condition, writes the status
  and returns a result without requeue delay; on any other error that is not
  already-exists it sets the same condition and requeues after the short wait.
\<close>

theorem create_bad_request_no_requeue:
  assumes "Client_Create client (clusterNamePrefix @ UID instance) (Spec instance) = (createdCluster, Some err)"
    and "\<not> eks_IsErrorAlreadyExists client err"
    and "out = Reconciler_create r instance client"
  shows "GetCondition (inst out) TypeSynced = ReconcileError err
       \<and> calls out = [Call_Create (clusterNamePrefix @ UID instance) (Spec instance), Call_Update (inst out)]
       \<and> (eks_IsErrorBadRequest client err \<longrightarrow>
            ret out = Return \<lparr>Requeue = False, RequeueAfter = 0\<rparr> (Update r (inst out)))
       \<and> (\<not> eks_IsErrorBadRequest client err \<longrightarrow>
            ret out = Return \<lparr>Requeue = False, RequeueAfter = aShortWait\<rparr> (Update r (inst out)))
       \<and> 0 < aShortWait"
  using assms
  by (simp add: Reconciler_create_def fail_def Let_def SetConditions_fields after_simps
      GetCondition_SetConditions1 ReconcileError_def Result_zero_def aShortWait_def Second_def)

theorem create_bad_request_no_requeue_witness:
  "ret (Reconciler_create (sample_Reconciler new_Cluster sample_Client) new_Cluster
          (rejecting_Client (errors_New ''InvalidParameterException'')))
     = Return \<lparr>Requeue = False, RequeueAfter = 0\<rparr> None
   \<and> ret (Reconciler_create (sample_Reconciler new_Cluster sample_Client) new_Cluster
          (rejecting_Client (errors_New ''throttled'')))
     = Return \<lparr>Requeue = False, RequeueAfter = 30000000000\<rparr> None"
proof -
  let ?r = "sample_Reconciler new_Cluster sample_Client"
  let ?bad = "rejecting_Client (errors_New ''InvalidParameterException'')"
  let ?busy = "rejecting_Client (errors_New ''throttled'')"
  have a1: "Client_Create ?bad (clusterNamePrefix @ UID new_Cluster) (Spec new_Cluster)
              = (None, Some (errors_New ''InvalidParameterException''))"
    by (simp add: rejecting_Client_def)
  have a2: "\<not> eks_IsErrorAlreadyExists ?bad (errors_New ''InvalidParameterException'')"
    by (simp add: rejecting_Client_def sample_Client_def)
  have a3: "eks_IsErrorBadRequest ?bad (errors_New ''InvalidParameterException'')"
    by (simp add: rejecting_Client_def sample_Client_def)
  have b1: "Client_Create ?busy (clusterNamePrefix @ UID new_Cluster) (Spec new_Cluster)
              = (None, Some (errors_New ''throttled''))"
    by (simp add: rejecting_Client_def)
  have b2: "\<not> eks_IsErrorAlreadyExists ?busy (errors_New ''throttled'')"
    by (simp add: rejecting_Client_def sample_Client_def)
  have b3: "\<not> eks_IsErrorBadRequest ?busy (errors_New ''throttled'')"
    by (simp add: rejecting_Client_def sample_Client_def)
  have u: "\<And>i. Update ?r i = None"
    by (simp add: sample_Reconciler_def)
  show ?thesis
    using create_bad_request_no_requeue [OF a1 a2 refl, of ?r]
      create_bad_request_no_requeue [OF b1 b2 refl, of ?r] a3 b3 u
    by (simp add: aShortWait_def Second_def)
qed

section \<open>Reference resolution in the reconcile loop\<close>

text \<open>
  C1 (as stated): a pass over a resource whose deletion was requested runs the Delete
  branch whatever the state of reference resolution. \<open>Reconcile\<close> resolves references
  before it looks at the deletion timestamp: on a deleted resource whose references
  are blocked, the pass writes the blocked condition and returns; it requests no
  deletion, does not set the deleting condition and keeps the finalizer.
\<close>

theorem reconcile_blocked_before_delete_counterexample:
  "DeletionTimestamp deleted_Cluster = Some 1
   \<and> Get (blocked_Reconciler deleted_Cluster sample_Client) = Inr deleted_Cluster
   \<and> calls (Reconcile (blocked_Reconciler deleted_Cluster sample_Client))
       = [Call_Get, Call_connect, Call_ResolveReferences,
          Call_Update (inst (Reconcile (blocked_Reconciler deleted_Cluster sample_Client)))]
   \<and> Finalizers (inst (Reconcile (blocked_Reconciler deleted_Cluster sample_Client))) = [finalizer]
   \<and> GetCondition (inst (Reconcile (blocked_Reconciler deleted_Cluster sample_Client))) TypeReady
       \<noteq> Deleting"
  by (simp add: Reconcile_def blocked_Reconciler_def sample_Reconciler_def deleted_Cluster_def
      sample_Cluster_def EKSCluster_zero_def Let_def SetConditions_def
      ConditionedStatus_SetConditions_def SetCondition_def
      GetCondition_def ConditionedStatus_GetCondition_def IsConditionTrue_def
      ReferenceResolutionBlocked_def Deleting_def)

text \<open>
  C1 (amended): a pass that fetches a resource whose deletion was requested and
  connects to the provider runs the Delete branch when the references-resolved
  condition is already true, or when reference resolution succeeds in this pass (the
  resolver hands the resource on with its deletion timestamp). When the connection
  fails, or when resolution fails, the pass only writes the status: it makes no
  deletion call and leaves the finalizers and the Ready condition as they were.
\<close>

theorem reconcile_deletes_once_resolved:
  assumes "Get r = Inr instance"
  shows "(connect r instance = Inr eksClient
            \<and> IsConditionTrue (GetCondition instance TypeReferencesResolved)
            \<and> DeletionTimestamp instance \<noteq> None \<longrightarrow>
          Reconcile r = after [Call_Get, Call_connect]
            (Reconciler_delete r (AddFinalizer instance finalizer) eksClient))
       \<and> (connect r instance = Inr eksClient
            \<and> \<not> IsConditionTrue (GetCondition instance TypeReferencesResolved)
            \<and> ResolveReferences r instance = (None, resolved_instance)
            \<and> DeletionTimestamp resolved_instance \<noteq> None \<longrightarrow>
          Reconcile r = after [Call_Get, Call_connect, Call_ResolveReferences]
            (Reconciler_delete r
              (AddFinalizer (SetConditions resolved_instance [ReferenceResolutionSuccess]) finalizer) eksClient))
       \<and> (connect r instance = Inr eksClient
            \<and> \<not> IsConditionTrue (GetCondition instance TypeReferencesResolved)
            \<and> ResolveReferences r instance = (Some err, unresolved) \<longrightarrow>
          calls (Reconcile r) = [Call_Get, Call_connect, Call_ResolveReferences, Call_Update (inst (Reconcile r))]
          \<and> Finalizers (inst (Reconcile r)) = Finalizers unresolved
          \<and> GetCondition (inst (Reconcile r)) TypeReady = GetCondition unresolved TypeReady)
       \<and> (connect r instance = Inl connectErr \<longrightarrow>
          calls (Reconcile r) = [Call_Get, Call_connect, Call_Update (inst (Reconcile r))]
          \<and> Finalizers (inst (Reconcile r)) = Finalizers instance
          \<and> GetCondition (inst (Reconcile r)) TypeReady = GetCondition instance TypeReady
          \<and> GetCondition (inst (Reconcile r)) TypeSynced = ReconcileError connectErr)"
proof -
  have a: "DeletionTimestamp (AddFinalizer i f) = DeletionTimestamp i" for i f
    by (simp add: AddFinalizer_def)
  have c1: "Reconcile r = after [Call_Get, Call_connect]
            (Reconciler_delete r (AddFinalizer instance finalizer) eksClient)"
    if "connect r instance = Inr eksClient"
      "IsConditionTrue (GetCondition instance TypeReferencesResolved)" "DeletionTimestamp instance \<noteq> None"
    using that assms
    by (simp add: Reconcile_def Reconcile_provision_def Let_def a)
  have c2: "Reconcile r = after [Call_Get, Call_connect, Call_ResolveReferences]
            (Reconciler_delete r
              (AddFinalizer (SetConditions resolved_instance [ReferenceResolutionSuccess]) finalizer) eksClient)"
    if "connect r instance = Inr eksClient"
      "\<not> IsConditionTrue (GetCondition instance TypeReferencesResolved)"
      "ResolveReferences r instance = (None, resolved_instance)"
      "DeletionTimestamp resolved_instance \<noteq> None"
    using that assms
    by (simp add: Reconcile_def Reconcile_provision_def Let_def a SetConditions_fields)
  have c3: "calls (Reconcile r) = [Call_Get, Call_connect, Call_ResolveReferences, Call_Update (inst (Reconcile r))]
          \<and> Finalizers (inst (Reconcile r)) = Finalizers unresolved
          \<and> GetCondition (inst (Reconcile r)) TypeReady = GetCondition unresolved TypeReady"
    if c: "connect r instance = Inr eksClient"
      and n: "\<not> IsConditionTrue (GetCondition instance TypeReferencesResolved)"
      and e: "ResolveReferences r instance = (Some err, unresolved)"
    using Reconcile_resolution_fails(3) [OF assms c n e]
    by (simp add: Reconcile_resolution_fails(1) [OF assms c n e] SetConditions_fields
        GetCondition_SetConditions1 ReferenceResolutionBlocked_def ReconcileError_def)
  have c4: "calls (Reconcile r) = [Call_Get, Call_connect, Call_Update (inst (Reconcile r))]
          \<and> Finalizers (inst (Reconcile r)) = Finalizers instance
          \<and> GetCondition (inst (Reconcile r)) TypeReady = GetCondition instance TypeReady
          \<and> GetCondition (inst (Reconcile r)) TypeSynced = ReconcileError connectErr"
    if "connect r instance = Inl connectErr"
    using that assms
    by (simp add: Reconcile_def fail_def after_simps Let_def SetConditions_fields
        GetCondition_SetConditions1 Condition_Type_simps)
  show ?thesis
    using c1 c2 c3 c4 by blast
qed

theorem reconcile_deletes_once_resolved_witness:
  "Reconcile (sample_Reconciler deleted_Cluster sample_Client)
     = after [Call_Get, Call_connect, Call_ResolveReferences]
         (Reconciler_delete (sample_Reconciler deleted_Cluster sample_Client)
            (AddFinalizer (SetConditions (snd (assignSubnetIDs [''subnet-1''] deleted_Cluster))
               [ReferenceResolutionSuccess]) finalizer) sample_Client)
   \<and> calls (Reconcile (blocked_Reconciler deleted_Cluster sample_Client))
     = [Call_Get, Call_connect, Call_ResolveReferences,
        Call_Update (inst (Reconcile (blocked_Reconciler deleted_Cluster sample_Client)))]
   \<and> calls (Reconcile (disconnected_Reconciler deleted_Cluster))
     = [Call_Get, Call_connect,
        Call_Update (inst (Reconcile (disconnected_Reconciler deleted_Cluster)))]"
proof -
  let ?r = "sample_Reconciler deleted_Cluster sample_Client"
  let ?b = "blocked_Reconciler deleted_Cluster sample_Client"
  let ?d = "disconnected_Reconciler deleted_Cluster"
  let ?i = "snd (assignSubnetIDs [''subnet-1''] deleted_Cluster)"
  have g: "Get ?r = Inr deleted_Cluster" and gc: "connect ?r deleted_Cluster = Inr sample_Client"
    by (simp_all add: sample_Reconciler_def)
  have gb: "Get ?b = Inr deleted_Cluster" and gbc: "connect ?b deleted_Cluster = Inr sample_Client"
    by (simp_all add: blocked_Reconciler_def sample_Reconciler_def)
  have gd: "Get ?d = Inr deleted_Cluster"
    and gdc: "connect ?d deleted_Cluster = Inl (errors_New ''no credentials'')"
    by (simp_all add: disconnected_Reconciler_def sample_Reconciler_def)
  have res: "ResolveReferences ?r deleted_Cluster = (None, ?i)"
    by (simp add: sample_Reconciler_def assignSubnetIDs_def SubnetIDReferencerForEKSCluster_Assign_def)
  have d: "DeletionTimestamp ?i \<noteq> None"
    by (simp add: assignSubnetIDs_def SubnetIDReferencerForEKSCluster_Assign_def deleted_Cluster_def)
  have blk: "ResolveReferences ?b deleted_Cluster = (Some (errors_New ''references blocked''), deleted_Cluster)"
    by (simp add: blocked_Reconciler_def)
  from reconcile_deletes_once_resolved [OF g, where eksClient = sample_Client and resolved_instance = ?i]
    gc sample_unresolved(2) res d
  have c1: "Reconcile ?r = after [Call_Get, Call_connect, Call_ResolveReferences]
         (Reconciler_delete ?r (AddFinalizer (SetConditions ?i [ReferenceResolutionSuccess]) finalizer) sample_Client)"
    by blast
  from reconcile_deletes_once_resolved [OF gb, where eksClient = sample_Client
      and err = "errors_New ''references blocked''" and unresolved = deleted_Cluster]
    gbc sample_unresolved(2) blk
  have c2: "calls (Reconcile ?b) = [Call_Get, Call_connect, Call_ResolveReferences, Call_Update (inst (Reconcile ?b))]"
    by blast
  from reconcile_deletes_once_resolved [OF gd, where connectErr = "errors_New ''no credentials''"] gdc
  have c3: "calls (Reconcile ?d) = [Call_Get, Call_connect, Call_Update (inst (Reconcile ?d))]"
    by blast
  show ?thesis
    using c1 c2 c3 by blast
qed

text \<open>
  C2 (as stated): a pass whose reference resolution is blocked requeues after the
  short delay used for transient waiting. The pass returns \<open>aLongWait\<close>, 60 seconds,
  where \<open>fail\<close> and the polling branches return \<open>aShortWait\<close>, 30 seconds.
\<close>

theorem reconcile_blocked_long_wait_counterexample:
  "ret (Reconcile (blocked_Reconciler sample_Cluster sample_Client))
     = Return \<lparr>Requeue = False, RequeueAfter = 60000000000\<rparr> None
   \<and> aShortWait = 30000000000"
  by (simp add: Reconcile_def blocked_Reconciler_def sample_Reconciler_def
      sample_Cluster_def EKSCluster_zero_def Let_def errors_Wrap_def
      GetCondition_def ConditionedStatus_GetCondition_def IsConditionTrue_def
      aLongWait_def aShortWait_def Second_def)

text \<open>
  C2 (amended): a pass whose reference resolution is blocked sets the
  resolution-blocked condition and leaves the Synced condition alone (no
  reconcile-error condition), makes no call to the provider (after resolution it only
  writes the status), and returns a requeue after the long wait, twice the short wait.
\<close>

theorem reconcile_blocked_requeues_after_long_wait:
  assumes "Get r = Inr instance"
    and "connect r instance = Inr eksClient"
    and "\<not> IsConditionTrue (GetCondition instance TypeReferencesResolved)"
    and "ResolveReferences r instance = (Some err, unresolved)"
    and "IsReferencesAccessError r err"
  shows "GetCondition (inst (Reconcile r)) TypeReferencesResolved = ReferenceResolutionBlocked err
       \<and> GetCondition (inst (Reconcile r)) TypeSynced = GetCondition unresolved TypeSynced
       \<and> calls (Reconcile r) = [Call_Get, Call_connect, Call_ResolveReferences, Call_Update (inst (Reconcile r))]
       \<and> ret (Reconcile r) = Return \<lparr>Requeue = False, RequeueAfter = aLongWait\<rparr>
           (errors_Wrap (Update r (inst (Reconcile r))) errUpdateManagedStatus)
       \<and> aLongWait = 2 * aShortWait"
  using Reconcile_resolution_fails(2,3) [OF assms(1-4)] assms(5)
  by (simp add: Reconcile_resolution_fails(1) [OF assms(1-4)] GetCondition_SetConditions1
      ReferenceResolutionBlocked_def aLongWait_def aShortWait_def)

theorem reconcile_blocked_requeues_after_long_wait_witness:
  "GetCondition (inst (Reconcile (blocked_Reconciler sample_Cluster sample_Client))) TypeReferencesResolved
     = ReferenceResolutionBlocked (errors_New ''references blocked'')
   \<and> ret (Reconcile (blocked_Reconciler sample_Cluster sample_Client))
     = Return \<lparr>Requeue = False, RequeueAfter = aLongWait\<rparr> None
   \<and> aLongWait = 2 * aShortWait"
proof -
  let ?b = "blocked_Reconciler sample_Cluster sample_Client"
  have gb: "Get ?b = Inr sample_Cluster" "connect ?b sample_Cluster = Inr sample_Client"
    by (simp_all add: blocked_Reconciler_def sample_Reconciler_def)
  have blk: "ResolveReferences ?b sample_Cluster = (Some (errors_New ''references blocked''), sample_Cluster)"
    by (simp add: blocked_Reconciler_def)
  have acc: "IsReferencesAccessError ?b (errors_New ''references blocked'')"
    by (simp add: blocked_Reconciler_def sample_Reconciler_def)
  have u: "\<And>i. Update ?b i = None"
    by (simp add: blocked_Reconciler_def sample_Reconciler_def)
  show ?thesis
    using reconcile_blocked_requeues_after_long_wait [OF gb sample_unresolved(1) blk acc] u
    by (simp add: errors_Wrap_def)
qed

text \<open>
  C3: reference resolution is idempotent at the level of the loop. Once the stored
  resource carries the references-resolved condition, no later pass calls
  \<open>ResolveReferences\<close> (the only caller of a referencer's \<open>Build\<close> and \<open>Assign\<close>),
  whatever the collaborators answer; every resource a pass writes, and the resource
  left in the end, has the same spec and still carries the condition.
\<close>

theorem resolved_passes_skip_resolution:
  assumes "resolved stored"
  shows "Call_ResolveReferences \<notin> set (snd (passes rs stored))
       \<and> Spec (fst (passes rs stored)) = Spec stored
       \<and> resolved (fst (passes rs stored))
       \<and> list_all (\<lambda>j. Spec j = Spec stored \<and> resolved j) (written (snd (passes rs stored)))"
proof -
  note k = passes_keep [OF assms, of rs]
  from k have "list_all (kept stored) (written (snd (passes rs stored)))" by blast
  with assms have "list_all (\<lambda>j. Spec j = Spec stored \<and> resolved j) (written (snd (passes rs stored)))"
    by (auto simp add: list_all_iff kept_def resolved_def)
  moreover from k assms have "resolved (fst (passes rs stored))"
    by (blast intro: kept_resolved)
  moreover from k have "Spec (fst (passes rs stored)) = Spec stored"
    by (simp add: kept_def)
  ultimately show ?thesis
    using k by blast
qed

theorem resolved_passes_skip_resolution_witness:
  "resolved resolved_Cluster
   \<and> Call_ResolveReferences \<notin> set (snd (passes
        [sample_Reconciler sample_Cluster sample_Client, sample_Reconciler sample_Cluster sample_Client]
        resolved_Cluster))
   \<and> SubnetIDs (Spec (fst (passes
        [sample_Reconciler sample_Cluster sample_Client, sample_Reconciler sample_Cluster sample_Client]
        resolved_Cluster))) = [''subnet-1'']"
proof -
  have r: "resolved resolved_Cluster"
    by (simp add: resolved_def resolved_Cluster_def GetCondition_SetConditions1
        ReferenceResolutionSuccess_def IsConditionTrue_def)
  have s: "SubnetIDs (Spec resolved_Cluster) = [''subnet-1'']"
    by (simp add: resolved_Cluster_def SetConditions_fields assignSubnetIDs_appends
        sample_Cluster_def EKSCluster_zero_def)
  show ?thesis
    using resolved_passes_skip_resolution [OF r,
        of "[sample_Reconciler sample_Cluster sample_Client, sample_Reconciler sample_Cluster sample_Client]"]
      r s
    by simp
qed

section \<open>Update of a role-policy attachment\<close>



text \<open>
  C10: when the status records no attached policy, or records the policy of the
  spec, \<open>Update\<close> succeeds without any attach or detach request.
\<close>

theorem update_without_change_makes_no_request:
  assumes "AttachedPolicyARN cr = [] \<or> AttachedPolicyARN cr = PolicyARN cr"
  shows "external_Update client (Managed_IAMRolePolicyAttachment cr)
           = (None, Managed_IAMRolePolicyAttachment cr, [])"
  using assms
  by (auto simp add: external_Update_def)

theorem update_without_change_makes_no_request_witness:
  "external_Update sample_IAMClient (Managed_IAMRolePolicyAttachment (sample_Attachment [] ''arn:B''))
     = (None, Managed_IAMRolePolicyAttachment (sample_Attachment [] ''arn:B''), [])
   \<and> external_Update sample_IAMClient (Managed_IAMRolePolicyAttachment (sample_Attachment ''arn:B'' ''arn:B''))
     = (None, Managed_IAMRolePolicyAttachment (sample_Attachment ''arn:B'' ''arn:B''), [])"
proof -
  have a: "AttachedPolicyARN (sample_Attachment [] ''arn:B'') = [] \<or>
           AttachedPolicyARN (sample_Attachment [] ''arn:B'') = PolicyARN (sample_Attachment [] ''arn:B'')"
    by (simp add: sample_Attachment_def)
  have b: "AttachedPolicyARN (sample_Attachment ''arn:B'' ''arn:B'') = [] \<or>
           AttachedPolicyARN (sample_Attachment ''arn:B'' ''arn:B'') = PolicyARN (sample_Attachment ''arn:B'' ''arn:B'')"
    by (simp add: sample_Attachment_def)
  show ?thesis
    using update_without_change_makes_no_request [OF a, of sample_IAMClient]
      update_without_change_makes_no_request [OF b, of sample_IAMClient]
    by blast
qed

end
